theory Spec2Isabelle
  imports Main
begin

section \<open>Values, host and world\<close>

text \<open>
  A \<open>Uri\<close> is represented by its \<open>fsPath\<close>. A thrown value is an error object with
  its name (\<open>Error\<close>, \<open>TypeError\<close>, ...) and its message; \<open>Error msg\<close> is what
  \<open>new Error(msg)\<close> makes. Configuration values are JSON values as the editor's settings
  store hands them out.
\<close>

type_synonym Uri = string

datatype exn = Thrown (exn_name: string) (message: string)

abbreviation Error :: "string \<Rightarrow> exn" where
  "Error msg \<equiv> Thrown ''Error'' msg"

datatype jsvalue = Undefined | Null | Bool bool | Str string | Num int
  | Obj "(string \<times> jsvalue) list"

datatype OperatingMode = SingleFile | SingleRoot | MultiRoot

datatype StrategyKind = NPM | Yarn | VsCodeSettings | Path | Download

datatype log_level = Debug | Info | Warn | Err

datatype log_entry = LogEntry log_level string "string list"

datatype ui_message = ErrorMessage string | InformationMessage string

record fs_file =
  content :: string
  mode :: nat

datatype fs_op = CreateDirectory Uri | CopyFile string string | Chmod string nat
  | WriteFile Uri string

record Release =
  tag_name :: string
  prerelease :: bool

record QuickPickItem =
  item_label :: string
  description :: string
  alwaysShow :: bool

record Project =
  project_path :: Uri
  configPath :: "Uri option"

text \<open>
  The mutable part of the program's surroundings: the file system, the editor's global
  state, the messages shown to the user, the log, and a counter of the clock readings
  taken. \<open>fs_ops\<close> lists the mutating file-system calls made, in order, whether or not
  they succeeded.
\<close>

record world =
  files :: "Uri \<rightharpoonup> fs_file"
  fs_ops :: "fs_op list"
  globalState :: "string \<rightharpoonup> string"
  messages :: "ui_message list"
  log :: "log_entry list"
  tick :: nat

text \<open>
  What the program reads from its surroundings and cannot change: the process
  (\<open>process.platform\<close>, \<open>process.arch\<close>, \<open>process.env.PATH\<close>), the editor
  (workspace folders, storage location, settings, the user's answers to prompts), the
  library functions on paths and URIs, module resolution, the network, the release
  catalogue, the clock and the failures of the file system. None of this is code of the
  repository; each is a parameter. \<open>getVersion\<close>, \<open>daysToMs\<close> and the release
  catalogue belong to modules of the repository that are not among the sources at hand
  (\<open>utils\<close>, \<open>state\<close>) and are taken as parameters too.
\<close>

record env =
  platform :: string
  arch :: string
  PATH :: "string option"
  delimiter :: char
  workspaceFolders :: "Uri list option"
  globalStorageUri :: Uri
  joinPath :: "Uri \<Rightarrow> string list \<Rightarrow> Uri"
  uriFile :: "string \<Rightarrow> Uri"
  dirname :: "string \<Rightarrow> string"
  pathJoin :: "string \<Rightarrow> string \<Rightarrow> string"
  configuration :: "string \<Rightarrow> Uri option \<Rightarrow> string \<Rightarrow> jsvalue"
  informationAnswer :: "string \<Rightarrow> string list \<Rightarrow> string option"
  quickPickAnswer :: "QuickPickItem list \<Rightarrow> QuickPickItem option"
  requireResolve :: "string \<Rightarrow> string list \<Rightarrow> exn + string"
  createRequireResolve :: "string \<Rightarrow> string \<Rightarrow> exn + string"
  pnpRequire :: "string \<Rightarrow> exn option"
  pnpResolveRequest :: "string \<Rightarrow> string \<Rightarrow> string \<Rightarrow> exn + string"
  fetchHead :: "string \<Rightarrow> exn + bool"
  fetchGet :: "string \<Rightarrow> exn + string"
  releasesAll :: "Release list"
  versionOutdated :: "string \<Rightarrow> bool"
  latestVersion :: string
  semverGte :: "string \<Rightarrow> string \<Rightarrow> exn + bool"
  getVersion :: "Uri \<Rightarrow> string option"
  io_fault :: "fs_op \<Rightarrow> exn option"
  clock :: "nat \<Rightarrow> int"
  toISOString :: "int \<Rightarrow> string"
  dateGetTime :: "string \<Rightarrow> int option"
  daysToMs :: "int \<Rightarrow> int"

definition logger :: "log_level \<Rightarrow> string \<Rightarrow> string list \<Rightarrow> world \<Rightarrow> world" where
  "logger lvl msg data w = w\<lparr>log := log w @ [LogEntry lvl msg data]\<rparr>"

definition showErrorMessage :: "string \<Rightarrow> world \<Rightarrow> world" where
  "showErrorMessage msg w = w\<lparr>messages := messages w @ [ErrorMessage msg]\<rparr>"

definition showInformationMessage :: "string \<Rightarrow> world \<Rightarrow> world" where
  "showInformationMessage msg w = w\<lparr>messages := messages w @ [InformationMessage msg]\<rparr>"

section \<open>The strategy chain (binary-finder.ts)\<close>

text \<open>
  A strategy's \<open>find\<close> is an asynchronous function: it returns a location or null
  (\<open>Inr\<close>), or rejects (\<open>Inl\<close>), and may have changed the world either way. So may
  the \<open>onSuccess\<close> hook, which returns nothing or throws, and the optional
  \<open>condition\<close>, which returns a boolean or rejects.
\<close>

record BinaryFindStrategy =
  name :: string
  find' :: "Uri option \<Rightarrow> world \<Rightarrow> (exn + Uri option) \<times> world"

record Strategy =
  label :: string
  kind :: StrategyKind
  strategy :: BinaryFindStrategy
  onSuccess :: "Uri \<Rightarrow> world \<Rightarrow> (exn + unit) \<times> world"
  condition :: "(Uri option \<Rightarrow> world \<Rightarrow> (exn + bool) \<times> world) option"

record FindResult =
  bin :: Uri
  found_label :: string
  found_kind :: StrategyKind

text \<open>
  \<open>if (condition && !(await condition(path))) continue;\<close>: the result is false exactly
  when a condition is defined and evaluates to false, and an error when a condition is
  defined and rejects.
\<close>

definition checkCondition :: "Strategy \<Rightarrow> Uri option \<Rightarrow> world \<Rightarrow> (exn + bool) \<times> world" where
  "checkCondition s path w =
     (case condition s of None \<Rightarrow> (Inr True, w) | Some c \<Rightarrow> c path w)"

text \<open>
  The condition is awaited outside the \<open>try\<close> block: when it rejects, \<open>attemptFind\<close>
  rejects. The lookup and the \<open>onSuccess\<close> hook both run inside the \<open>try\<close> block:
  an error thrown by either is caught and logged, and the loop goes on.
\<close>

fun attemptFind ::
  "Strategy list \<Rightarrow> Uri option \<Rightarrow> world \<Rightarrow> (exn + FindResult option) \<times> world" where
  "attemptFind [] path w = (Inr None, w)"
| "attemptFind (s # strategies) path w =
     (case checkCondition s path w of
        (Inl err, w1) \<Rightarrow> (Inl err, w1)
      | (Inr False, w1) \<Rightarrow> attemptFind strategies path w1
      | (Inr True, w1) \<Rightarrow>
          (case find' (strategy s) path w1 of
             (Inr (Some binary), w2) \<Rightarrow>
               (case onSuccess s binary w2 of
                  (Inr u, w3) \<Rightarrow>
                    (Inr (Some \<lparr>bin = binary, found_label = label s, found_kind = kind s\<rparr>),
                     w3)
                | (Inl err, w3) \<Rightarrow>
                    attemptFind strategies path
                      (logger Err (name (strategy s) @ '' returned an error'')
                         [message err] w3))
           | (Inr None, w2) \<Rightarrow>
               attemptFind strategies path
                 (logger Info ''Binary not found with strategy'' [name (strategy s)] w2)
           | (Inl err, w2) \<Rightarrow>
               attemptFind strategies path
                 (logger Err (name (strategy s) @ '' returned an error'') [message err] w2)))"

text \<open>
  The relation "every strategy of the list, evaluated in order from world \<open>w\<close>, is passed
  over, leaving world \<open>w'\<close>", in the words of the specification: a strategy whose
  precondition is defined and false is skipped; a strategy that returns nothing is passed
  over; a strategy that raises is logged and treated as having returned nothing. As the
  code has it, a strategy whose \<open>onSuccess\<close> hook raises is logged and passed over in
  the same way.
\<close>

inductive passed_over :: "Strategy list \<Rightarrow> Uri option \<Rightarrow> world \<Rightarrow> world \<Rightarrow> bool" where
  none_left: "passed_over [] path w w"
| skipped:
    "checkCondition s path w = (Inr False, w1) \<Longrightarrow> passed_over ss path w1 w'
     \<Longrightarrow> passed_over (s # ss) path w w'"
| no_result:
    "checkCondition s path w = (Inr True, w1)
     \<Longrightarrow> find' (strategy s) path w1 = (Inr None, w2)
     \<Longrightarrow> passed_over ss path
           (logger Info ''Binary not found with strategy'' [name (strategy s)] w2) w'
     \<Longrightarrow> passed_over (s # ss) path w w'"
| raised:
    "checkCondition s path w = (Inr True, w1)
     \<Longrightarrow> find' (strategy s) path w1 = (Inl err, w2)
     \<Longrightarrow> passed_over ss path
           (logger Err (name (strategy s) @ '' returned an error'') [message err] w2) w'
     \<Longrightarrow> passed_over (s # ss) path w w'"
| hook_raised:
    "checkCondition s path w = (Inr True, w1)
     \<Longrightarrow> find' (strategy s) path w1 = (Inr (Some b), w2)
     \<Longrightarrow> onSuccess s b w2 = (Inl err, w3)
     \<Longrightarrow> passed_over ss path
           (logger Err (name (strategy s) @ '' returned an error'') [message err] w3) w'
     \<Longrightarrow> passed_over (s # ss) path w w'"

section \<open>Strings and values of the host language\<close>

definition startsWith :: "string \<Rightarrow> string \<Rightarrow> bool" where
  "startsWith s p = (take (length p) s = p)"

fun js_includes :: "string \<Rightarrow> string \<Rightarrow> bool" where
  "js_includes [] p = (p = [])"
| "js_includes (c # cs) p = (startsWith (c # cs) p \<or> js_includes cs p)"

text \<open>\<open>toLowerCase\<close> on the letters of ASCII; other bytes stay as they are.\<close>

definition lowerChar :: "char \<Rightarrow> char" where
  "lowerChar c =
     (case map_of (zip ''ABCDEFGHIJKLMNOPQRSTUVWXYZ'' ''abcdefghijklmnopqrstuvwxyz'') c of
        Some l \<Rightarrow> l
      | None \<Rightarrow> c)"

definition toLowerCase :: "string \<Rightarrow> string" where
  "toLowerCase s = map lowerChar s"

text \<open>
  \<open>s.replace(pat, r)\<close> with a string pattern replaces the first occurrence of
  \<open>pat\<close>. In the replacement \<open>r\<close> a dollar sign introduces a pattern: \<open>$$\<close>
  stands for a dollar sign, \<open>$&\<close> for the matched text, \<open>$`\<close> for the text before
  the match and \<open>$'\<close> for the text after it. A string pattern has no capture groups,
  so every other use of the dollar sign stands for itself.
\<close>

fun expandReplacement :: "string \<Rightarrow> string \<Rightarrow> string \<Rightarrow> string \<Rightarrow> string" where
  "expandReplacement matched before after [] = []"
| "expandReplacement matched before after [c] = [c]"
| "expandReplacement matched before after (c # d # r) =
     (if c = CHR ''$'' \<and> d = CHR ''$'' then CHR ''$'' # expandReplacement matched before after r
      else if c = CHR ''$'' \<and> d = CHR ''&'' then matched @ expandReplacement matched before after r
      else if c = CHR ''$'' \<and> d = CHR 0x60 then before @ expandReplacement matched before after r
      else if c = CHR ''$'' \<and> d = CHR 0x27 then after @ expandReplacement matched before after r
      else c # expandReplacement matched before after (d # r))"

fun replaceFrom :: "string \<Rightarrow> string \<Rightarrow> string \<Rightarrow> string \<Rightarrow> string" where
  "replaceFrom before [] pat r =
     (if pat = [] then before @ expandReplacement [] before [] r else before)"
| "replaceFrom before (c # cs) pat r =
     (if startsWith (c # cs) pat
      then before @ expandReplacement pat before (drop (length pat) (c # cs)) r
           @ drop (length pat) (c # cs)
      else replaceFrom (before @ [c]) cs pat r)"

definition js_replace :: "string \<Rightarrow> string \<Rightarrow> string \<Rightarrow> string" where
  "js_replace s pat r = replaceFrom [] s pat r"

text \<open>\<open>s.split(d)\<close> for a separator of one character.\<close>

fun split :: "char \<Rightarrow> string \<Rightarrow> string list" where
  "split d [] = [[]]"
| "split d (c # cs) =
     (if c = d then [] # split d cs
      else (case split d cs of [] \<Rightarrow> [[c]] | x # xs \<Rightarrow> (c # x) # xs))"

fun truthy :: "jsvalue \<Rightarrow> bool" where
  "truthy Undefined = False"
| "truthy Null = False"
| "truthy (Bool b) = b"
| "truthy (Str s) = (s \<noteq> [])"
| "truthy (Num n) = (n \<noteq> 0)"
| "truthy (Obj kvs) = True"

fun typeof :: "jsvalue \<Rightarrow> string" where
  "typeof Undefined = ''undefined''"
| "typeof Null = ''object''"
| "typeof (Bool b) = ''boolean''"
| "typeof (Str s) = ''string''"
| "typeof (Num n) = ''number''"
| "typeof (Obj kvs) = ''object''"

text \<open>\<open>v[key]\<close> on a value that is not null or undefined.\<close>

fun js_index :: "jsvalue \<Rightarrow> string \<Rightarrow> jsvalue" where
  "js_index (Obj kvs) key = (case map_of kvs key of Some v \<Rightarrow> v | None \<Rightarrow> Undefined)"
| "js_index v key = Undefined"

text \<open>
  A version as \<open>getVersion\<close> returns it is a string or nothing; \<open>!version\<close> holds for
  nothing and for the empty string. In a template literal a missing value is printed by
  its name.
\<close>

definition present :: "string option \<Rightarrow> bool" where
  "present v = (case v of None \<Rightarrow> False | Some s \<Rightarrow> s \<noteq> [])"

definition template :: "string option \<Rightarrow> string" where
  "template v = (case v of None \<Rightarrow> ''undefined'' | Some s \<Rightarrow> s)"

text \<open>An error in a template literal: its name and its message, as \<open>toString\<close> joins them.\<close>

definition errorToString :: "exn \<Rightarrow> string" where
  "errorToString e =
     (if exn_name e = [] then message e
      else if message e = [] then exn_name e
      else exn_name e @ '': '' @ message e)"

section \<open>File system (utils.ts and node:fs)\<close>

text \<open>
  Modelled from the spec: \<open>fileExists\<close> and \<open>fileIsExecutable\<close> of \<open>utils\<close> are not
  among the sources at hand. A location "exists" when the file system has a file there;
  it is executable when that file has the owner's execute bit.
\<close>

definition fileExists :: "world \<Rightarrow> Uri \<Rightarrow> bool" where
  "fileExists w p = (files w p \<noteq> None)"

definition fileIsExecutable :: "world \<Rightarrow> Uri \<Rightarrow> bool" where
  "fileIsExecutable w p = (case files w p of None \<Rightarrow> False | Some f \<Rightarrow> odd (mode f div 64))"

text \<open>
  The mutating calls. Each is recorded in \<open>fs_ops\<close> when it is made; it throws when the
  host makes it fail, or when the file it works on is missing.
\<close>

definition fs_call :: "fs_op \<Rightarrow> world \<Rightarrow> world" where
  "fs_call op w = w\<lparr>fs_ops := fs_ops w @ [op]\<rparr>"

definition createDirectory :: "env \<Rightarrow> Uri \<Rightarrow> world \<Rightarrow> (exn + unit) \<times> world" where
  "createDirectory e d w =
     (let w1 = fs_call (CreateDirectory d) w in
      case io_fault e (CreateDirectory d) of
        Some err \<Rightarrow> (Inl err, w1)
      | None \<Rightarrow> (Inr (), w1))"

definition copyFileSync :: "env \<Rightarrow> string \<Rightarrow> string \<Rightarrow> world \<Rightarrow> (exn + unit) \<times> world" where
  "copyFileSync e src dst w =
     (let w1 = fs_call (CopyFile src dst) w in
      case io_fault e (CopyFile src dst) of
        Some err \<Rightarrow> (Inl err, w1)
      | None \<Rightarrow>
          (case files w1 src of
             None \<Rightarrow> (Inl (Error ''ENOENT: no such file or directory''), w1)
           | Some f \<Rightarrow> (Inr (), w1\<lparr>files := (files w1)(dst \<mapsto> f)\<rparr>)))"

definition chmodSync :: "env \<Rightarrow> string \<Rightarrow> nat \<Rightarrow> world \<Rightarrow> (exn + unit) \<times> world" where
  "chmodSync e p m w =
     (let w1 = fs_call (Chmod p m) w in
      case io_fault e (Chmod p m) of
        Some err \<Rightarrow> (Inl err, w1)
      | None \<Rightarrow>
          (case files w1 p of
             None \<Rightarrow> (Inl (Error ''ENOENT: no such file or directory''), w1)
           | Some f \<Rightarrow> (Inr (), w1\<lparr>files := (files w1)(p \<mapsto> f\<lparr>mode := m\<rparr>)\<rparr>)))"

definition writeFile :: "env \<Rightarrow> Uri \<Rightarrow> string \<Rightarrow> world \<Rightarrow> (exn + unit) \<times> world" where
  "writeFile e p bytes w =
     (let w1 = fs_call (WriteFile p bytes) w in
      case io_fault e (WriteFile p bytes) of
        Some err \<Rightarrow> (Inl err, w1)
      | None \<Rightarrow>
          (Inr (), w1\<lparr>files := (files w1)(p \<mapsto>
             \<lparr>content = bytes,
              mode = (case files w1 p of None \<Rightarrow> 420 | Some f \<Rightarrow> mode f)\<rparr>)\<rparr>))"

section \<open>Constants (constants.ts)\<close>

definition oldPackageName :: string where
  "oldPackageName = ''@postgrestools/postgrestools''"

definition newPackageName :: string where
  "newPackageName = ''@postgres-language-server/cli''"

definition OLD_PACKAGE_NAMES :: "(string \<times> (string \<times> string) list) list" where
  "OLD_PACKAGE_NAMES =
     [(''win32'', [(''x64'', ''@postgrestools/cli-x86_64-windows-msvc''),
                   (''arm64'', ''@postgrestools/cli-aarch64-windows-msvc'')]),
      (''darwin'', [(''x64'', ''@postgrestools/cli-x86_64-apple-darwin''),
                    (''arm64'', ''@postgrestools/cli-aarch64-apple-darwin'')]),
      (''linux'', [(''x64'', ''@postgrestools/cli-x86_64-linux-gnu''),
                   (''arm64'', ''@postgrestools/cli-aarch64-linux-gnu'')])]"

definition NEW_PACKAGE_NAMES :: "(string \<times> (string \<times> string) list) list" where
  "NEW_PACKAGE_NAMES =
     [(''win32'', [(''x64'', ''@postgres-language-server/cli-x86_64-windows-msvc''),
                   (''arm64'', ''@postgres-language-server/cli-aarch64-windows-msvc'')]),
      (''darwin'', [(''x64'', ''@postgres-language-server/cli-x86_64-apple-darwin''),
                    (''arm64'', ''@postgres-language-server/cli-aarch64-apple-darwin'')]),
      (''linux'', [(''x64'', ''@postgres-language-server/cli-x86_64-linux-gnu''),
                   (''arm64'', ''@postgres-language-server/cli-aarch64-linux-gnu'')])]"

definition platformMappings :: "(string \<times> string) list" where
  "platformMappings =
     [(''darwin'', ''apple-darwin''), (''linux'', ''unknown-linux-gnu''),
      (''win32'', ''pc-windows-msvc'')]"

definition archMappings :: "(string \<times> string) list" where
  "archMappings = [(''arm64'', ''aarch64''), (''x64'', ''x86_64'')]"

definition oldPlatformSpecificBinaryName :: "env \<Rightarrow> string" where
  "oldPlatformSpecificBinaryName e =
     ''postgrestools'' @ (if platform e = ''win32'' then ''.exe'' else [])"

definition newPlatformSpecificBinaryName :: "env \<Rightarrow> string" where
  "newPlatformSpecificBinaryName e =
     ''postgres-language-server'' @ (if platform e = ''win32'' then ''.exe'' else [])"

definition platformPackage :: "(string \<times> (string \<times> string) list) list \<Rightarrow> env \<Rightarrow> string option" where
  "platformPackage table e =
     (case map_of table (platform e) of None \<Rightarrow> None | Some archs \<Rightarrow> map_of archs (arch e))"

definition oldPlatformSpecificNodePackageName :: "env \<Rightarrow> string option" where
  "oldPlatformSpecificNodePackageName e = platformPackage OLD_PACKAGE_NAMES e"

definition newPlatformSpecificNodePackageName :: "env \<Rightarrow> string option" where
  "newPlatformSpecificNodePackageName e = platformPackage NEW_PACKAGE_NAMES e"

text \<open>
  \<open>for (const [k, v] of Object.entries(m)) if (k === x) assetName += sep + v\<close>
\<close>

fun appendMatching :: "string \<Rightarrow> string \<Rightarrow> (string \<times> string) list \<Rightarrow> string \<Rightarrow> string" where
  "appendMatching sep x [] assetName = assetName"
| "appendMatching sep x ((k, v) # entries) assetName =
     appendMatching sep x entries (if k = x then assetName @ sep @ v else assetName)"

definition releasedAssetName :: "string \<Rightarrow> env \<Rightarrow> string" where
  "releasedAssetName base e =
     appendMatching ''-'' (platform e) platformMappings
       (appendMatching ''_'' (arch e) archMappings base)"

definition oldPlatformSpecificReleasedAssetName :: "env \<Rightarrow> string" where
  "oldPlatformSpecificReleasedAssetName e = releasedAssetName ''postgrestools'' e"

definition newPlatformSpecificReleasedAssetName :: "env \<Rightarrow> string" where
  "newPlatformSpecificReleasedAssetName e = releasedAssetName ''postgres-language-server'' e"

definition operatingMode :: "env \<Rightarrow> OperatingMode" where
  "operatingMode e =
     (case workspaceFolders e of
        None \<Rightarrow> SingleFile
      | Some folders \<Rightarrow> if length folders > 1 then MultiRoot else SingleRoot)"

definition platformIdentifier :: "env \<Rightarrow> string" where
  "platformIdentifier e = platform e @ ''-'' @ arch e"

definition globalStorageFolderForBinary :: string where
  "globalStorageFolderForBinary = ''global-bin''"

section \<open>Settings (config.ts)\<close>

definition getConfig :: "env \<Rightarrow> string \<Rightarrow> Uri option \<Rightarrow> jsvalue" where
  "getConfig e key scope =
     (let newValue = configuration e ''postgres-language-server'' scope key in
      if newValue \<noteq> Undefined \<and> newValue \<noteq> Str [] \<and> newValue \<noteq> Null
         \<and> typeof newValue \<noteq> ''boolean''
      then newValue
      else configuration e ''postgrestools'' scope key)"

definition isEnabledForFolder :: "env \<Rightarrow> Uri \<Rightarrow> bool" where
  "isEnabledForFolder e folder = truthy (getConfig e ''enabled'' (Some folder))"

section \<open>Renaming (renaming.ts)\<close>

definition hasNewName :: "env \<Rightarrow> bool" where
  "hasNewName e =
     (case fetchHead e
        (''https://github.com/supabase-community/postgres-language-server/releases/latest/download/''
         @ newPlatformSpecificReleasedAssetName e) of
        Inl err \<Rightarrow> False
      | Inr ok \<Rightarrow> ok)"

fun updateAndRenamingMessageForKind :: "StrategyKind \<Rightarrow> string" where
  "updateAndRenamingMessageForKind NPM =
     ''A new version of the Postgres Language Server is available! Make sure to use the new `@postgres-language-server/cli` package, as the old `@postgrestools/postgrestools` is being phased out.''"
| "updateAndRenamingMessageForKind Yarn =
     ''A new version of the Postgres Language Server is available! Make sure to use the new `@postgres-language-server/cli` package, as the old `@postgrestools/postgrestools` is being phased out.''"
| "updateAndRenamingMessageForKind Download =
     ''A new version of the Postgres Language Server is available! Make sure to get the binary from the new `postgres-language-server` name, as the old `postgrestools` is being phased out.''"
| "updateAndRenamingMessageForKind Path =
     ''A new version of the Postgres Language Server is available! Make sure to get the binary from the new `postgres-language-server` name, as the old `postgrestools` is being phased out.''"
| "updateAndRenamingMessageForKind VsCodeSettings =
     ''A new version of the Postgres Language Server is available! Make sure to get the binary from the new `postgres-language-server` name, as the old `postgrestools` is being phased out.''"

section \<open>Downloader (downloader.ts)\<close>

text \<open>
  Of the logger, the calls at level error and warn are recorded everywhere; the calls at
  level info and debug are tracing and are recorded in the strategy chain only.
\<close>

record DownloadedBinary =
  version :: string
  binPath :: Uri

definition nl :: string where
  "nl = [CHR 0x0A]"

definition getOldInstalledBinaryPath :: "env \<Rightarrow> Uri" where
  "getOldInstalledBinaryPath e =
     joinPath e (globalStorageUri e)
       [globalStorageFolderForBinary, oldPlatformSpecificBinaryName e]"

definition getNewInstalledBinaryPath :: "env \<Rightarrow> Uri" where
  "getNewInstalledBinaryPath e =
     joinPath e (globalStorageUri e)
       [globalStorageFolderForBinary, newPlatformSpecificBinaryName e]"

fun getDownloadedBinaryIn :: "env \<Rightarrow> world \<Rightarrow> Uri list \<Rightarrow> exn + DownloadedBinary option" where
  "getDownloadedBinaryIn e w [] = Inr None"
| "getDownloadedBinaryIn e w (b # bins) =
     (if fileExists w b then
        (if \<not> present (getVersion e b)
         then Inl (Error ''Just verified file exists, but it doesn't anymore.'')
         else Inr (Some \<lparr>version = template (getVersion e b), binPath = b\<rparr>))
      else getDownloadedBinaryIn e w bins)"

definition getDownloadedBinary :: "env \<Rightarrow> world \<Rightarrow> exn + DownloadedBinary option" where
  "getDownloadedBinary e w =
     getDownloadedBinaryIn e w [getNewInstalledBinaryPath e, getOldInstalledBinaryPath e]"

fun join_with :: "string \<Rightarrow> string list \<Rightarrow> string" where
  "join_with sep [] = []"
| "join_with sep [x] = x"
| "join_with sep (x # y # ys) = x @ sep @ join_with sep (y # ys)"

definition quickPickItems :: "string option \<Rightarrow> Release list \<Rightarrow> QuickPickItem list" where
  "quickPickItems downloadedBinary availableVersions =
     map (\<lambda>(index, release).
            \<lparr>item_label = tag_name release,
             description = join_with '', ''
               ((if index = 0 then [''latest''] else [])
                @ (if prerelease release then [''prerelease''] else [])
                @ (if downloadedBinary = Some (tag_name release)
                   then [''(currently installed)''] else [])),
             alwaysShow = (index < 3)\<rparr>)
         (enumerate 0 availableVersions)"

definition promptVersionToDownload :: "env \<Rightarrow> world \<Rightarrow> QuickPickItem option" where
  "promptVersionToDownload e w =
     (let downloadedBinary =
            (case getDownloadedBinary e w of
               Inl err \<Rightarrow> None
             | Inr it \<Rightarrow> map_option version it)
      in quickPickAnswer e (quickPickItems downloadedBinary (releasesAll e)))"

definition downloadUrl :: "env \<Rightarrow> string \<Rightarrow> string" where
  "downloadUrl e v =
     ''https://github.com/supabase-community/postgres-language-server/releases/download/''
     @ v @ ''/''
     @ (if hasNewName e then newPlatformSpecificReleasedAssetName e
        else oldPlatformSpecificReleasedAssetName e)"

definition saveFailed :: "exn \<Rightarrow> world \<Rightarrow> world" where
  "saveFailed error w =
     showErrorMessage (''Failed to save binary.'' @ nl @ nl @ errorToString error)
       (logger Err ''Failed to save downloaded binary'' [message error] w)"

definition downloadPgltVersion :: "env \<Rightarrow> string \<Rightarrow> world \<Rightarrow> world" where
  "downloadPgltVersion e v w =
     (let newNameAvailable = hasNewName e;
          url = downloadUrl e v
      in case fetchGet e url of
           Inl error \<Rightarrow>
             showErrorMessage
               (''Failed to download binary version '' @ v @ '' from '' @ url @ ''.''
                @ nl @ nl @ errorToString error)
               (logger Err ''Failed to download binary'' [message error] w)
         | Inr binary \<Rightarrow>
             (let binPath = (if newNameAvailable then getNewInstalledBinaryPath e
                             else getOldInstalledBinaryPath e)
              in case writeFile e binPath binary w of
                   (Inl error, w1) \<Rightarrow> saveFailed error w1
                 | (Inr u, w1) \<Rightarrow>
                     (case chmodSync e binPath 493 w1 of
                        (Inl error, w2) \<Rightarrow> saveFailed error w2
                      | (Inr u', w2) \<Rightarrow>
                          showInformationMessage
                            (''Downloaded Postgres Language Server '' @ v @ '' to '' @ binPath)
                            w2)))"

definition downloadPglt :: "env \<Rightarrow> world \<Rightarrow> (exn + Uri option) \<times> world" where
  "downloadPglt e w =
     (case promptVersionToDownload e w of
        None \<Rightarrow> (Inr None, w)
      | Some versionToDownload \<Rightarrow>
          (let w1 = downloadPgltVersion e (item_label versionToDownload) w in
           case getDownloadedBinary e w1 of
             Inl err \<Rightarrow> (Inl err, w1)
           | Inr downloaded \<Rightarrow> (Inr (map_option binPath downloaded), w1)))"

section \<open>Discovery strategies (binary-finder-strategies.ts)\<close>

definition lookForBinary :: "env \<Rightarrow> world \<Rightarrow> string \<Rightarrow> (exn + Uri option) \<times> world" where
  "lookForBinary e w resolvedPath =
     (if resolvedPath = [] then (Inr None, w)
      else (let bin = uriFile e resolvedPath in
            if fileExists w bin then (Inr (Some bin), w) else (Inr None, w)))"

definition platformSetting :: "env \<Rightarrow> jsvalue \<Rightarrow> jsvalue" where
  "platformSetting e binSetting =
     (if typeof binSetting = ''object'' then
        (let relevantSetting = js_index binSetting (platformIdentifier e) in
         if truthy relevantSetting then relevantSetting else binSetting)
      else binSetting)"

definition vsCodeSettingsFind :: "env \<Rightarrow> Uri option \<Rightarrow> world \<Rightarrow> (exn + Uri option) \<times> world" where
  "vsCodeSettingsFind e path w =
     (let binSetting = getConfig e ''bin'' path in
      if \<not> truthy binSetting then (Inr None, w)
      else
        (case platformSetting e binSetting of
           Str s \<Rightarrow>
             (if startsWith s ''.'' then
                (if operatingMode e = MultiRoot then
                   (Inr None,
                    showErrorMessage
                      ''Relative paths for the postgres language server binary in a multi-root workspace setting are not supported. Please use an absolute path in your `*.code-workspace` file.''
                      w)
                 else
                   (case path of
                      Some p \<Rightarrow> lookForBinary e w (joinPath e p [s])
                    | None \<Rightarrow>
                        (Inr None,
                         logger Err
                           ''User picked a relative path for setting and is not in multi-root workspace mode. Somehow, we couldn't form a path to the binary.''
                           [] w)))
              else lookForBinary e w s)
         | other \<Rightarrow> (Inr None, w)))"

definition vsCodeSettingsStrategy :: "env \<Rightarrow> BinaryFindStrategy" where
  "vsCodeSettingsStrategy e =
     \<lparr>name = ''VSCode Settings Strategy'', find' = vsCodeSettingsFind e\<rparr>"

definition packageCandidates :: "env \<Rightarrow> (string \<times> string option \<times> string) list" where
  "packageCandidates e =
     [(newPackageName, newPlatformSpecificNodePackageName e, newPlatformSpecificBinaryName e),
      (oldPackageName, oldPlatformSpecificNodePackageName e, oldPlatformSpecificBinaryName e)]"

fun nodeModulesPackages ::
  "env \<Rightarrow> world \<Rightarrow> Uri \<Rightarrow> (string \<times> string option \<times> string) list \<Rightarrow> exn + Uri option" where
  "nodeModulesPackages e w path [] = Inr None"
| "nodeModulesPackages e w path ((pkgname, nodePkgName, binaryName) # rest) =
     (case requireResolve e (pkgname @ ''/package.json'') [path] of
        Inl err \<Rightarrow>
          (if js_includes (toLowerCase (message err)) ''cannot find module''
           then nodeModulesPackages e w path rest
           else Inl err)
      | Inr mainPackageJson \<Rightarrow>
          (case nodePkgName of
             None \<Rightarrow> Inr None
           | Some n \<Rightarrow>
               (case createRequireResolve e mainPackageJson (n @ ''/package.json'') of
                  Inl err \<Rightarrow> Inl err
                | Inr resolved \<Rightarrow>
                    (let binPackage = dirname e resolved;
                         binPath = pathJoin e binPackage binaryName;
                         bin = uriFile e binPath
                     in if fileExists w bin then Inr (Some bin)
                        else nodeModulesPackages e w path rest))))"

definition nodeModulesFind :: "env \<Rightarrow> Uri option \<Rightarrow> world \<Rightarrow> (exn + Uri option) \<times> world" where
  "nodeModulesFind e path w =
     (case path of
        None \<Rightarrow> (Inr None, w)
      | Some p \<Rightarrow> (nodeModulesPackages e w p (packageCandidates e), w))"

definition nodeModulesStrategy :: "env \<Rightarrow> BinaryFindStrategy" where
  "nodeModulesStrategy e = \<lparr>name = ''Node Modules Strategy'', find' = nodeModulesFind e\<rparr>"

fun yarnPnpPackages ::
  "env \<Rightarrow> string \<Rightarrow> Uri \<Rightarrow> (string \<times> string option \<times> string) list \<Rightarrow> Uri option" where
  "yarnPnpPackages e pnpFile path [] = None"
| "yarnPnpPackages e pnpFile path ((pkgname, nodePkgName, binaryName) # rest) =
     (case nodePkgName of
        None \<Rightarrow> yarnPnpPackages e pnpFile path rest
      | Some n \<Rightarrow>
          (case pnpResolveRequest e pnpFile (pkgname @ ''/package.json'') path of
             Inl err \<Rightarrow> yarnPnpPackages e pnpFile path rest
           | Inr packageJson \<Rightarrow>
               (case pnpResolveRequest e pnpFile (n @ ''/'' @ binaryName) packageJson of
                  Inl err \<Rightarrow> yarnPnpPackages e pnpFile path rest
                | Inr resolved \<Rightarrow> Some (uriFile e resolved))))"

fun yarnPnpExtensions :: "env \<Rightarrow> world \<Rightarrow> Uri \<Rightarrow> string list \<Rightarrow> exn + Uri option" where
  "yarnPnpExtensions e w path [] = Inr None"
| "yarnPnpExtensions e w path (ext # exts) =
     (let pnpFile = joinPath e path [''.pnp.'' @ ext] in
      if \<not> fileExists w pnpFile then yarnPnpExtensions e w path exts
      else
        (case pnpRequire e pnpFile of
           Some err \<Rightarrow> Inl err
         | None \<Rightarrow>
             (case yarnPnpPackages e pnpFile path (packageCandidates e) of
                Some found \<Rightarrow> Inr (Some found)
              | None \<Rightarrow> yarnPnpExtensions e w path exts)))"

definition yarnPnpFind :: "env \<Rightarrow> Uri option \<Rightarrow> world \<Rightarrow> (exn + Uri option) \<times> world" where
  "yarnPnpFind e path w =
     (case path of
        None \<Rightarrow> (Inr None, w)
      | Some p \<Rightarrow> (yarnPnpExtensions e w p [''cjs'', ''js''], w))"

definition yarnPnpStrategy :: "env \<Rightarrow> BinaryFindStrategy" where
  "yarnPnpStrategy e = \<lparr>name = ''Yarn PnP Strategy'', find' = yarnPnpFind e\<rparr>"

fun pathBinaryNames :: "env \<Rightarrow> world \<Rightarrow> string \<Rightarrow> string list \<Rightarrow> Uri option" where
  "pathBinaryNames e w dir [] = None"
| "pathBinaryNames e w dir (bname # bnames) =
     (let bin = joinPath e (uriFile e dir) [bname] in
      if fileExists w bin then Some bin else pathBinaryNames e w dir bnames)"

fun pathDirectories :: "env \<Rightarrow> world \<Rightarrow> string list \<Rightarrow> Uri option" where
  "pathDirectories e w [] = None"
| "pathDirectories e w (dir # dirs) =
     (case pathBinaryNames e w dir
             [newPlatformSpecificBinaryName e, oldPlatformSpecificBinaryName e] of
        Some found \<Rightarrow> Some found
      | None \<Rightarrow> pathDirectories e w dirs)"

definition pathEnvironmentVariableFind ::
  "env \<Rightarrow> Uri option \<Rightarrow> world \<Rightarrow> (exn + Uri option) \<times> world" where
  "pathEnvironmentVariableFind e path w =
     (case PATH e of
        None \<Rightarrow> (Inr None, w)
      | Some pathEnv \<Rightarrow>
          (if pathEnv = [] then (Inr None, w)
           else (Inr (pathDirectories e w (split (delimiter e) pathEnv)), w)))"

definition pathEnvironmentVariableStrategy :: "env \<Rightarrow> BinaryFindStrategy" where
  "pathEnvironmentVariableStrategy e =
     \<lparr>name = ''PATH Env Var Strategy'', find' = pathEnvironmentVariableFind e\<rparr>"

definition downloadQuestion :: string where
  "downloadQuestion = ''You've opened a supported file outside of a Postgres Language Server project, and no installed Postgres Language Server binary could be found on your system. Would you like to download and install Postgres Language Server?''"

definition downloadPgltFind :: "env \<Rightarrow> Uri option \<Rightarrow> world \<Rightarrow> (exn + Uri option) \<times> world" where
  "downloadPgltFind e path w =
     (case getDownloadedBinary e w of
        Inl err \<Rightarrow> (Inl err, w)
      | Inr (Some downloadedBinary) \<Rightarrow> (Inr (Some (binPath downloadedBinary)), w)
      | Inr None \<Rightarrow>
          (let proceed =
                 (informationAnswer e downloadQuestion [''Download and install'', ''No'']
                  = Some ''Download and install'');
               w1 = showInformationMessage downloadQuestion w
           in if \<not> proceed then (Inr None, w1) else downloadPglt e w1))"

definition downloadPgltStrategy :: "env \<Rightarrow> BinaryFindStrategy" where
  "downloadPgltStrategy e =
     \<lparr>name = ''Download Postgres Language Server Strategy'', find' = downloadPgltFind e\<rparr>"

section \<open>The two orderings (binary-finder.ts)\<close>

text \<open>Every hook of the two orderings is one call of \<open>logger.debug\<close>.\<close>

definition foundHook :: "string \<Rightarrow> Uri \<Rightarrow> world \<Rightarrow> (exn + unit) \<times> world" where
  "foundHook msg uri w = (Inr (), logger Debug msg [uri] w)"

definition LOCAL_STRATEGIES :: "env \<Rightarrow> Strategy list" where
  "LOCAL_STRATEGIES e =
     [\<lparr>label = ''VSCode Settings'', kind = VsCodeSettings,
       strategy = vsCodeSettingsStrategy e,
       onSuccess = foundHook
         ''Found Binary in VSCode Settings (postgres-language-server.bin) or (postgrestools.bin)'',
       condition = None\<rparr>,
      \<lparr>label = ''NPM node_modules'', kind = NPM,
       strategy = nodeModulesStrategy e,
       onSuccess = foundHook ''Found Binary in Node Modules'',
       condition = None\<rparr>,
      \<lparr>label = ''Yarn Plug'n'Play node_modules'', kind = Yarn,
       strategy = yarnPnpStrategy e,
       onSuccess = foundHook ''Found Binary in Yarn PnP'',
       condition = None\<rparr>,
      \<lparr>label = ''PATH Environment Variable'', kind = Path,
       strategy = pathEnvironmentVariableStrategy e,
       onSuccess = foundHook ''Found Binary in PATH Environment Variable'',
       condition = None\<rparr>,
      \<lparr>label = ''Downloaded Binary'', kind = Download,
       strategy = downloadPgltStrategy e,
       onSuccess = foundHook ''Found downloaded binary'',
       condition = None\<rparr>]"

definition GLOBAL_STRATEGIES :: "env \<Rightarrow> Strategy list" where
  "GLOBAL_STRATEGIES e =
     [\<lparr>label = ''VSCode Settings'', kind = VsCodeSettings,
       strategy = vsCodeSettingsStrategy e,
       onSuccess = foundHook ''Found Binary in VSCode Settings'',
       condition = None\<rparr>,
      \<lparr>label = ''PATH Environment Variable'', kind = Path,
       strategy = pathEnvironmentVariableStrategy e,
       onSuccess = foundHook ''Found Binary in PATH Environment Variable'',
       condition = None\<rparr>,
      \<lparr>label = ''Downloaded Binary'', kind = Download,
       strategy = downloadPgltStrategy e,
       onSuccess = foundHook ''Found downloaded binary'',
       condition = None\<rparr>]"

definition findGlobally :: "env \<Rightarrow> world \<Rightarrow> (exn + FindResult option) \<times> world" where
  "findGlobally e w =
     (case attemptFind (GLOBAL_STRATEGIES e) None
             (logger Info ''Using Global Strategies to find binary'' [] w) of
        (Inl err, w1) \<Rightarrow> (Inl err, w1)
      | (Inr None, w1) \<Rightarrow> (Inr None, logger Debug ''Unable to find binary globally.'' [] w1)
      | (Inr (Some binary), w1) \<Rightarrow> (Inr (Some binary), w1))"

definition findLocally :: "env \<Rightarrow> Uri \<Rightarrow> world \<Rightarrow> (exn + FindResult option) \<times> world" where
  "findLocally e path w =
     (case attemptFind (LOCAL_STRATEGIES e) (Some path)
             (logger Info ''Using Local Strategies to find binary'' [] w) of
        (Inl err, w1) \<Rightarrow> (Inl err, w1)
      | (Inr None, w1) \<Rightarrow> (Inr None, logger Debug ''Unable to find binary locally.'' [] w1)
      | (Inr (Some binary), w1) \<Rightarrow> (Inr (Some binary), w1))"

section \<open>Sessions (session.ts)\<close>

record LanguageClient =
  command :: string
  args :: "string list"
  cwd :: "string option"

record Session =
  session_bin :: Uri
  binaryStrategyLabel :: string
  tempBin :: "Uri option"
  client :: LanguageClient

text \<open>
  Of the language client only the server options are kept: the command, its arguments
  and its working directory.
\<close>

definition createLanguageClient :: "Uri \<Rightarrow> Project list \<Rightarrow> LanguageClient" where
  "createLanguageClient b projects =
     (let singleRootProject = (case projects of [p] \<Rightarrow> Some p | other \<Rightarrow> None) in
      case singleRootProject of
        Some p \<Rightarrow>
          (case configPath p of
             Some c \<Rightarrow>
               \<lparr>command = b, args = [''lsp-proxy'', ''--config-path='' @ c],
                cwd = Some (project_path p)\<rparr>
           | None \<Rightarrow> \<lparr>command = b, args = [''lsp-proxy''], cwd = None\<rparr>)
      | None \<Rightarrow>
          (case projects of
             p # q # ps \<Rightarrow>
               (case configPath p of
                  Some c \<Rightarrow>
                    \<lparr>command = b, args = [''lsp-proxy'', ''--config-path='' @ c], cwd = None\<rparr>
                | None \<Rightarrow> \<lparr>command = b, args = [''lsp-proxy''], cwd = None\<rparr>)
           | other \<Rightarrow> \<lparr>command = b, args = [''lsp-proxy''], cwd = None\<rparr>))"

definition tmpLocation :: "env \<Rightarrow> string option \<Rightarrow> Uri" where
  "tmpLocation e v =
     joinPath e (globalStorageUri e)
       [''tmp-bin'',
        js_replace (newPlatformSpecificBinaryName e) ''postgres-language-server''
          (''postgres-language-server-'' @ template v)]"

text \<open>The body of the \<open>try\<close> block of \<open>copyBinaryToTemporaryLocation\<close>.\<close>

definition copyToLocation :: "env \<Rightarrow> Uri \<Rightarrow> Uri \<Rightarrow> world \<Rightarrow> (exn + Uri) \<times> world" where
  "copyToLocation e b location w =
     (case createDirectory e (joinPath e (globalStorageUri e) [''tmp-bin'']) w of
        (Inl error, w1) \<Rightarrow> (Inl error, w1)
      | (Inr u, w1) \<Rightarrow>
          (case (if \<not> fileExists w1 location then copyFileSync e b location w1
                 else (Inr (), w1)) of
             (Inl error, w2) \<Rightarrow> (Inl error, w2)
           | (Inr u', w2) \<Rightarrow>
               (case chmodSync e location 493 w2 of
                  (Inl error, w3) \<Rightarrow> (Inl error, w3)
                | (Inr u'', w3) \<Rightarrow> (Inr location, w3))))"

definition copyBinaryToTemporaryLocation :: "env \<Rightarrow> Uri \<Rightarrow> world \<Rightarrow> Uri option \<times> world" where
  "copyBinaryToTemporaryLocation e b w =
     (let v = getVersion e b;
          w0 = (if \<not> present v
                then showErrorMessage
                       ''Tried to copy binary to temporary location, but it does not exist. Invalid state.''
                       w
                else w);
          location = tmpLocation e v
      in case copyToLocation e b location w0 of
           (Inr found, w1) \<Rightarrow> (Some found, w1)
         | (Inl error, w1) \<Rightarrow>
             (None, logger Warn (''Error copying binary: '' @ errorToString error) [] w1))"

text \<open>
  Lines 71 to 88 of \<open>createSession\<close>: the notification of an outdated version. The clock
  is read twice, by \<open>Date.now()\<close> and by \<open>new Date()\<close>; each reading takes the next
  value of the clock.
\<close>

definition outdatedMessage :: "env \<Rightarrow> FindResult \<Rightarrow> string \<Rightarrow> string" where
  "outdatedMessage e findResult v =
     (if hasNewName e then updateAndRenamingMessageForKind (found_kind findResult)
      else ''A new version of Postgres Language Server is available! Your version '' @ v
           @ '' is outdated, consider updating to latest version '' @ latestVersion e @ ''.'')"

definition lastNotifiedOfUpdate :: "env \<Rightarrow> world \<Rightarrow> string" where
  "lastNotifiedOfUpdate e w =
     (case globalState w ''lastNotifiedOfUpdate'' of
        None \<Rightarrow> toISOString e 0
      | Some s \<Rightarrow> if s = [] then toISOString e 0 else s)"

text \<open>
  \<open>Date.now() - new Date(lastNotifiedOfUpdate).getTime() > daysToMs(3)\<close>; the time of
  a string that is no date is NaN, and every comparison with NaN is false.
\<close>

definition updateDue :: "env \<Rightarrow> world \<Rightarrow> bool" where
  "updateDue e w =
     (case dateGetTime e (lastNotifiedOfUpdate e w) of
        None \<Rightarrow> False
      | Some t \<Rightarrow> clock e (tick w) - t > daysToMs e 3)"

definition notifyOfUpdate :: "env \<Rightarrow> FindResult \<Rightarrow> string \<Rightarrow> world \<Rightarrow> world" where
  "notifyOfUpdate e findResult v w =
     (let due = updateDue e w;
          w1 = w\<lparr>tick := Suc (tick w)\<rparr>
      in if due then
           (let w2 = (if versionOutdated e v
                      then showInformationMessage (outdatedMessage e findResult v) w1
                      else w1);
                stamp = toISOString e (clock e (tick w2));
                w3 = w2\<lparr>tick := Suc (tick w2)\<rparr>
            in w3\<lparr>globalState := (globalState w3)(''lastNotifiedOfUpdate'' \<mapsto> stamp)\<rparr>)
         else w1)"

definition multiRootNotice :: "string \<Rightarrow> string" where
  "multiRootNotice v =
     ''Your current Postgres Language Server version '' @ v
     @ '' does not support multi-root workspaces. Consider upgrading to version >= 0.8.0.''"

definition finishSession ::
  "env \<Rightarrow> Project list \<Rightarrow> FindResult \<Rightarrow> world \<Rightarrow> (exn + Session option) \<times> world" where
  "finishSession e projects findResult w =
     (case copyBinaryToTemporaryLocation e (bin findResult) w of
        (t, w1) \<Rightarrow>
          (Inr (Some
             \<lparr>session_bin = bin findResult,
              binaryStrategyLabel = found_label findResult,
              tempBin = t,
              client = createLanguageClient
                         (case t of Some tb \<Rightarrow> tb | None \<Rightarrow> bin findResult) projects\<rparr>),
           (if t = None
            then logger Warn ''Failed to copy binary to temporary location. Using original.'' [] w1
            else w1)))"

text \<open>
  Lines 42 to 45 of \<open>createSession\<close>: the local ordering in single-root mode with a
  first project, the global ordering otherwise.
\<close>

definition findBinary ::
  "env \<Rightarrow> Project list \<Rightarrow> world \<Rightarrow> (exn + FindResult option) \<times> world" where
  "findBinary e projects w =
     (case (operatingMode e, projects) of
        (SingleRoot, p # ps) \<Rightarrow> findLocally e (project_path p) w
      | other \<Rightarrow> findGlobally e w)"

definition createSession ::
  "env \<Rightarrow> Project list \<Rightarrow> world \<Rightarrow> (exn + Session option) \<times> world" where
  "createSession e projects w =
     (case findBinary e projects w of
        (Inl err, w1) \<Rightarrow> (Inl err, w1)
      | (Inr None, w1) \<Rightarrow>
          (Inr None,
           logger Err ''Could not find the Postgres Language Server binary'' []
             (showErrorMessage
                ''Unable to find a Postgres Language Server binary. Read the docs for various strategies to install a binary.''
                w1))
      | (Inr (Some findResult), w1) \<Rightarrow>
          (if \<not> fileIsExecutable w1 (bin findResult) then
             (Inr None,
              logger Err ''Found binary is not executable.'' []
                (showErrorMessage
                   (nl @ ''      The binary you've pointed to is not executable.'' @ nl
                    @ ''      ('' @ bin findResult @ '')'' @ nl @ ''    '')
                   w1))
           else if \<not> present (getVersion e (bin findResult)) then
             (Inl (Error ''Just verified we have an executable file. Version should exist.''), w1)
           else
             (let v = template (getVersion e (bin findResult));
                  w2 = notifyOfUpdate e findResult v w1
              in if operatingMode e = MultiRoot then
                   (case semverGte e v ''0.8.0'' of
                      Inl err \<Rightarrow> (Inl err, w2)
                    | Inr ok \<Rightarrow>
                        finishSession e projects findResult
                          (if \<not> ok then showInformationMessage (multiRootNotice v) w2
                           else w2))
                 else finishSession e projects findResult w2)))"

section \<open>Notions used to state the properties\<close>

text \<open>
  "The chain returns the result of the first strategy, in list order, whose precondition
  passes and whose lookup succeeds", as a relation: the list splits into the strategies
  passed over, the successful strategy \<open>s\<close> and the rest; \<open>s\<close> is evaluated in the world
  the earlier strategies left; its \<open>onSuccess\<close> hook, called with the location, returns
  normally; the result carries the location, the label and the kind of \<open>s\<close>, and the final
  world is the one the hook leaves. The strategies after \<open>s\<close> take no part.
\<close>

definition first_success ::
  "Strategy list \<Rightarrow> Uri option \<Rightarrow> world \<Rightarrow> FindResult \<Rightarrow> world \<Rightarrow> bool" where
  "first_success sts path w r w' \<longleftrightarrow>
     (\<exists>pre s post w1 w2 w3 b.
        sts = pre @ s # post \<and> passed_over pre path w w1 \<and>
        checkCondition s path w1 = (Inr True, w2) \<and>
        find' (strategy s) path w2 = (Inr (Some b), w3) \<and>
        onSuccess s b w3 = (Inr (), w') \<and>
        r = \<lparr>bin = b, found_label = label s, found_kind = kind s\<rparr>)"

text \<open>
  The precondition of some strategy rejects with \<open>err\<close>, every strategy before it having
  been passed over; \<open>w'\<close> is the world the rejecting precondition leaves.
\<close>

definition condition_raised ::
  "Strategy list \<Rightarrow> Uri option \<Rightarrow> world \<Rightarrow> exn \<Rightarrow> world \<Rightarrow> bool" where
  "condition_raised sts path w err w' \<longleftrightarrow>
     (\<exists>pre s post w1.
        sts = pre @ s # post \<and> passed_over pre path w w1 \<and>
        checkCondition s path w1 = (Inl err, w'))"

text \<open>
  The world after the first step of \<open>copyBinaryToTemporaryLocation\<close>, which shows a
  message when the binary reports no version and goes on either way.
\<close>

definition afterVersionCheck :: "env \<Rightarrow> Uri \<Rightarrow> world \<Rightarrow> world" where
  "afterVersionCheck e b w =
     (if \<not> present (getVersion e b)
      then showErrorMessage
             ''Tried to copy binary to temporary location, but it does not exist. Invalid state.''
             w
      else w)"



text \<open>
  A strategy checks its result when every location its lookup returns exists in the
  world in which its \<open>onSuccess\<close> hook has fired.
\<close>

definition checked :: "Strategy \<Rightarrow> bool" where
  "checked s \<longleftrightarrow>
     (\<forall>path w b w' w''.
        find' (strategy s) path w = (Inr (Some b), w') \<and> onSuccess s b w' = (Inr (), w'')
        \<longrightarrow> fileExists w'' b)"

section \<open>Concrete environments and worlds\<close>

definition emptyWorld :: world where
  "emptyWorld = \<lparr>files = Map.empty, fs_ops = [], globalState = Map.empty, messages = [],
     log = [], tick = 0\<rparr>"

definition demoStrategy ::
  "string \<Rightarrow> StrategyKind \<Rightarrow> (Uri option \<Rightarrow> world \<Rightarrow> (exn + Uri option) \<times> world) \<Rightarrow> Strategy" where
  "demoStrategy l k f =
     \<lparr>label = l, kind = k, strategy = \<lparr>name = l @ '' Strategy'', find' = f\<rparr>,
      onSuccess = foundHook (''Found by '' @ l), condition = None\<rparr>"

text \<open>
  A chain of five: a strategy whose precondition is false, one that raises, one that
  finds nothing, one that finds a binary, and one after it. The first and the last would
  show a message if they were ever evaluated.
\<close>

definition demoChain :: "Strategy list" where
  "demoChain =
     [(demoStrategy ''gated'' NPM
         (\<lambda>p w. (Inr (Some ''/never''), showErrorMessage ''gated ran'' w)))
        \<lparr>condition := Some (\<lambda>p w. (Inr False, w))\<rparr>,
      demoStrategy ''throwing'' Yarn (\<lambda>p w. (Inl (Error ''boom''), w)),
      demoStrategy ''empty'' VsCodeSettings (\<lambda>p w. (Inr None, w)),
      demoStrategy ''hit'' Path (\<lambda>p w. (Inr (Some ''/opt/tool''), w)),
      demoStrategy ''late'' Download
         (\<lambda>p w. (Inr (Some ''/late''), showErrorMessage ''late ran'' w))]"

text \<open>
  A chain of two strategies that each find a binary, the first with an \<open>onSuccess\<close>
  hook that throws; and a chain whose first strategy has a precondition that rejects.
\<close>

definition hookChain :: "Strategy list" where
  "hookChain =
     [(demoStrategy ''first'' VsCodeSettings (\<lambda>p w. (Inr (Some ''/a/tool''), w)))
        \<lparr>onSuccess := (\<lambda>u w. (Inl (Error ''hook failed''), w))\<rparr>,
      demoStrategy ''second'' Path (\<lambda>p w. (Inr (Some ''/b/tool''), w))]"

definition rejectingChain :: "Strategy list" where
  "rejectingChain =
     [(demoStrategy ''guarded'' NPM (\<lambda>p w. (Inr (Some ''/a/tool''), w)))
        \<lparr>condition := Some (\<lambda>p w. (Inl (Error ''no answer''), w))\<rparr>,
      demoStrategy ''second'' Path (\<lambda>p w. (Inr (Some ''/b/tool''), w))]"

text \<open>
  A Linux host with one workspace folder \<open>/proj\<close>, nothing configured, nothing
  installed, a network that fails every download, and a clock that stands at
  2026-11-03T00:00:00Z. Its path functions are stand-ins for the library's on the inputs
  used below.
\<close>

definition demoEnv :: env where
  "demoEnv =
     \<lparr>platform = ''linux'', arch = ''x64'', PATH = Some ''/usr/local/bin:/usr/bin'',
      delimiter = CHR '':'', workspaceFolders = Some [''/proj''],
      globalStorageUri = ''/storage'',
      joinPath = (\<lambda>u segs. foldl (\<lambda>a s. a @ ''/'' @ (if startsWith s ''./'' then drop 2 s else s)) u segs),
      uriFile = (\<lambda>p. if startsWith p ''/'' then p else ''/'' @ p),
      dirname = (\<lambda>p. p),
      pathJoin = (\<lambda>a b. a @ ''/'' @ b),
      configuration = (\<lambda>prefix scope key. Undefined),
      informationAnswer = (\<lambda>msg items. None),
      quickPickAnswer = (\<lambda>items. None),
      requireResolve = (\<lambda>request paths. Inl (Error ''Cannot find module'')),
      createRequireResolve = (\<lambda>from request. Inl (Error ''Cannot find module'')),
      pnpRequire = (\<lambda>f. None),
      pnpResolveRequest = (\<lambda>f request issuer. Inl (Error ''not listed'')),
      fetchHead = (\<lambda>url. Inr True),
      fetchGet = (\<lambda>url. Inl (Thrown ''TypeError'' ''fetch failed'')),
      releasesAll = [\<lparr>tag_name = ''2.0.0'', prerelease = False\<rparr>,
                     \<lparr>tag_name = ''1.9.0'', prerelease = False\<rparr>],
      versionOutdated = (\<lambda>v. v \<noteq> ''2.0.0''),
      latestVersion = ''2.0.0'',
      semverGte = (\<lambda>a b. Inr True),
      getVersion = (\<lambda>p. Some ''1.9.0''),
      io_fault = (\<lambda>op. None),
      clock = (\<lambda>n. 1793664000000),
      toISOString = (\<lambda>t. if t = 0 then ''1970-01-01T00:00:00.000Z''
                          else ''2026-11-03T00:00:00.000Z''),
      dateGetTime = (\<lambda>s. if s = ''1970-01-01T00:00:00.000Z'' then Some 0
                          else if s = ''2026-11-03T00:00:00.000Z'' then Some 1793664000000
                          else None),
      daysToMs = (\<lambda>d. d * 86400000)\<rparr>"

text \<open>
  A world whose only file is a binary on the search path, readable, writable and
  executable by its owner only (mode 0o700); and a world whose only file is a binary
  already downloaded to the global storage.
\<close>

definition binWorld :: world where
  "binWorld = emptyWorld\<lparr>files :=
     [''/usr/local/bin/postgres-language-server'' \<mapsto> \<lparr>content = ''ELF'', mode = 448\<rparr>]\<rparr>"

definition downloadedWorld :: world where
  "downloadedWorld = emptyWorld\<lparr>files :=
     [''/storage/global-bin/postgres-language-server'' \<mapsto> \<lparr>content = ''ELF'', mode = 493\<rparr>]\<rparr>"



text \<open>
  The Linux host with the binary setting \<open>s\<close> under the new prefix; a world with a
  binary inside the project; the host with a Plug'n'Play resolver that answers with a
  path inside a zip archive of the package cache; and a world whose only file is the
  Plug'n'Play manifest of the project.
\<close>

definition binSettingEnv :: "string \<Rightarrow> env" where
  "binSettingEnv s =
     demoEnv\<lparr>configuration := (\<lambda>prefix scope key.
       if prefix = ''postgres-language-server'' \<and> key = ''bin'' then Str s else Undefined)\<rparr>"

definition projWorld :: world where
  "projWorld = emptyWorld\<lparr>files :=
     [''/proj/bin/pgls'' \<mapsto> \<lparr>content = ''ELF'', mode = 493\<rparr>]\<rparr>"

definition pnpEnv :: env where
  "pnpEnv =
     demoEnv\<lparr>pnpResolveRequest := (\<lambda>f request issuer.
       if request = ''@postgres-language-server/cli/package.json''
       then Inr ''/proj/.yarn/cache/cli.zip/node_modules/@postgres-language-server/cli/package.json''
       else if request = ''@postgres-language-server/cli-x86_64-linux-gnu/postgres-language-server''
       then Inr ''/proj/.yarn/cache/cli-x86_64-linux-gnu.zip/node_modules/@postgres-language-server/cli-x86_64-linux-gnu/postgres-language-server''
       else Inl (Error ''not listed''))\<rparr>"

definition pnpWorld :: world where
  "pnpWorld = emptyWorld\<lparr>files :=
     [''/proj/.pnp.cjs'' \<mapsto> \<lparr>content = ''module.exports = {}'', mode = 420\<rparr>]\<rparr>"

text \<open>The project of the workspace folder, and the result of finding the binary on the search path.\<close>

definition demoProject :: Project where
  "demoProject = \<lparr>project_path = ''/proj'', configPath = None\<rparr>"

definition pathResult :: FindResult where
  "pathResult = \<lparr>bin = ''/usr/local/bin/postgres-language-server'',
     found_label = ''PATH Environment Variable'', found_kind = Path\<rparr>"

section \<open>Properties of the strategy chain\<close>

lemma passed_over_append:
  "passed_over pre path w w1 \<Longrightarrow> attemptFind (pre @ rest) path w = attemptFind rest path w1"
  by (induction rule: passed_over.induct) simp_all

lemma passed_over_Cons:
  assumes "passed_over [s] path w v" and "passed_over ss path v w'"
  shows "passed_over (s # ss) path w w'"
  using assms
  by (cases rule: passed_over.cases) (auto elim: passed_over.cases intro: passed_over.intros)

lemma first_success_here:
  "checkCondition s path w = (Inr True, w2) \<Longrightarrow> find' (strategy s) path w2 = (Inr (Some b), w3)
   \<Longrightarrow> onSuccess s b w3 = (Inr (), w')
   \<Longrightarrow> first_success (s # post) path w
         \<lparr>bin = b, found_label = label s, found_kind = kind s\<rparr> w'"
  unfolding first_success_def
  by (intro exI[of _ "[]"] exI[of _ s] exI[of _ post] exI[of _ w] exI[of _ w2] exI[of _ w3]
        exI[of _ b])
     (simp add: passed_over.none_left)

lemma first_success_later:
  assumes "passed_over [s] path w v" and "first_success ss path v r w'"
  shows "first_success (s # ss) path w r w'"
proof -
  from assms(2) obtain pre t post w1 w2 w3 b where d: "ss = pre @ t # post"
    "passed_over pre path v w1" "checkCondition t path w1 = (Inr True, w2)"
    "find' (strategy t) path w2 = (Inr (Some b), w3)" "onSuccess t b w3 = (Inr (), w')"
    "r = \<lparr>bin = b, found_label = label t, found_kind = kind t\<rparr>"
    unfolding first_success_def by blast
  from assms(1) d(2) have "passed_over (s # pre) path w w1" by (rule passed_over_Cons)
  moreover from d(1) have "s # ss = (s # pre) @ t # post" by simp
  ultimately show ?thesis unfolding first_success_def using d(3-6) by blast
qed

lemma condition_raised_here:
  "checkCondition s path w = (Inl err, w') \<Longrightarrow> condition_raised (s # post) path w err w'"
  unfolding condition_raised_def
  by (intro exI[of _ "[]"] exI[of _ s] exI[of _ post] exI[of _ w])
     (simp add: passed_over.none_left)

lemma condition_raised_later:
  assumes "passed_over [s] path w v" and "condition_raised ss path v err w'"
  shows "condition_raised (s # ss) path w err w'"
proof -
  from assms(2) obtain pre t post w1 where d: "ss = pre @ t # post"
    "passed_over pre path v w1" "checkCondition t path w1 = (Inl err, w')"
    unfolding condition_raised_def by blast
  from assms(1) d(2) have "passed_over (s # pre) path w w1" by (rule passed_over_Cons)
  moreover from d(1) have "s # ss = (s # pre) @ t # post" by simp
  ultimately show ?thesis unfolding condition_raised_def using d(3) by blast
qed

text \<open>Every outcome of the chain is of one of three kinds.\<close>

lemma attemptFind_cases:
  "attemptFind sts path w = (r, w') \<Longrightarrow>
     (r = Inr None \<and> passed_over sts path w w')
     \<or> (\<exists>fr. r = Inr (Some fr) \<and> first_success sts path w fr w')
     \<or> (\<exists>err. r = Inl err \<and> condition_raised sts path w err w')"
proof (induction sts arbitrary: w)
  case Nil
  then show ?case by (auto intro: passed_over.none_left)
next
  case (Cons s ss)
  have step: "(r = Inr None \<and> passed_over (s # ss) path w w')
     \<or> (\<exists>fr. r = Inr (Some fr) \<and> first_success (s # ss) path w fr w')
     \<or> (\<exists>err. r = Inl err \<and> condition_raised (s # ss) path w err w')"
    if p: "passed_over [s] path w v" and a: "attemptFind ss path v = (r, w')" for v
    using Cons.IH[OF a] p
    by (auto intro: passed_over_Cons first_success_later condition_raised_later)
  obtain c w1 where c: "checkCondition s path w = (c, w1)"
    by (cases "checkCondition s path w")
  show ?case
  proof (cases c)
    case (Inl err)
    with c Cons.prems have "r = Inl err" "w' = w1" by simp_all
    with c Inl show ?thesis by (auto intro: condition_raised_here)
  next
    case (Inr ok)
    show ?thesis
    proof (cases ok)
      case False
      with c Inr have "passed_over [s] path w w1" by (auto intro: passed_over.intros)
      moreover from False c Inr Cons.prems have "attemptFind ss path w1 = (r, w')" by simp
      ultimately show ?thesis by (rule step)
    next
      case True
      from c Inr True have c': "checkCondition s path w = (Inr True, w1)" by simp
      obtain res w2 where f: "find' (strategy s) path w1 = (res, w2)"
        by (cases "find' (strategy s) path w1")
      show ?thesis
      proof (cases res)
        case (Inl err)
        let ?v = "logger Err (name (strategy s) @ '' returned an error'') [message err] w2"
        from c' f Inl have "passed_over [s] path w ?v" by (auto intro: passed_over.intros)
        moreover from c' f Inl Cons.prems have "attemptFind ss path ?v = (r, w')" by simp
        ultimately show ?thesis by (rule step)
      next
        case found: (Inr found)
        show ?thesis
        proof (cases found)
          case None
          let ?v = "logger Info ''Binary not found with strategy'' [name (strategy s)] w2"
          from c' f found None have "passed_over [s] path w ?v"
            by (auto intro: passed_over.intros)
          moreover from c' f found None Cons.prems have "attemptFind ss path ?v = (r, w')"
            by simp
          ultimately show ?thesis by (rule step)
        next
          case (Some b)
          note f' = f[unfolded found Some]
          obtain h w3 where h: "onSuccess s b w2 = (h, w3)" by (cases "onSuccess s b w2")
          show ?thesis
          proof (cases h)
            case (Inl err)
            let ?v = "logger Err (name (strategy s) @ '' returned an error'') [message err] w3"
            from c' f' h Inl have "passed_over [s] path w ?v"
              by (auto intro: passed_over.intros)
            moreover from c' f' h Inl Cons.prems have "attemptFind ss path ?v = (r, w')"
              by simp
            ultimately show ?thesis by (rule step)
          next
            case (Inr u)
            with c' f' h Cons.prems
            have "r = Inr (Some \<lparr>bin = b, found_label = label s, found_kind = kind s\<rparr>)"
              "w' = w3" by simp_all
            moreover from c' f' h Inr
            have "first_success (s # ss) path w
                \<lparr>bin = b, found_label = label s, found_kind = kind s\<rparr> w3"
              by (intro first_success_here) simp_all
            ultimately show ?thesis by simp
          qed
        qed
      qed
    qed
  qed
qed

lemma first_success_attemptFind:
  assumes "first_success sts path w r w'"
  shows "attemptFind sts path w = (Inr (Some r), w')"
proof -
  from assms obtain pre s post w1 w2 w3 b where d: "sts = pre @ s # post"
    "passed_over pre path w w1" "checkCondition s path w1 = (Inr True, w2)"
    "find' (strategy s) path w2 = (Inr (Some b), w3)" "onSuccess s b w3 = (Inr (), w')"
    "r = \<lparr>bin = b, found_label = label s, found_kind = kind s\<rparr>"
    unfolding first_success_def by blast
  from d(2) have "attemptFind (pre @ s # post) path w = attemptFind (s # post) path w1"
    by (rule passed_over_append)
  with d show ?thesis by simp
qed

lemma condition_raised_attemptFind:
  assumes "condition_raised sts path w err w'"
  shows "attemptFind sts path w = (Inl err, w')"
proof -
  from assms obtain pre s post w1 where d: "sts = pre @ s # post"
    "passed_over pre path w w1" "checkCondition s path w1 = (Inl err, w')"
    unfolding condition_raised_def by blast
  from d(2) have "attemptFind (pre @ s # post) path w = attemptFind (s # post) path w1"
    by (rule passed_over_append)
  with d show ?thesis by simp
qed

lemma no_condition_no_error:
  assumes "\<forall>t \<in> set sts. condition t = None"
  shows "\<exists>r. fst (attemptFind sts path w) = Inr r"
proof (cases "attemptFind sts path w")
  case (Pair r w')
  show ?thesis
  proof (cases r)
    case (Inl err)
    with Pair attemptFind_cases[OF Pair] have "condition_raised sts path w err w'" by simp
    then obtain pre s post w1 where "sts = pre @ s # post"
      "checkCondition s path w1 = (Inl err, w')"
      unfolding condition_raised_def by blast
    with assms show ?thesis by (simp add: checkCondition_def)
  next
    case (Inr x)
    with Pair show ?thesis by simp
  qed
qed

lemma demoChain_result:
  "attemptFind demoChain None emptyWorld =
     (Inr (Some \<lparr>bin = ''/opt/tool'', found_label = ''hit'', found_kind = Path\<rparr>),
      emptyWorld\<lparr>log :=
        [LogEntry Err ''throwing Strategy returned an error'' [''boom''],
         LogEntry Info ''Binary not found with strategy'' [''empty Strategy''],
         LogEntry Debug ''Found by hit'' [''/opt/tool'']]\<rparr>)"
  by (simp add: demoChain_def demoStrategy_def emptyWorld_def checkCondition_def logger_def
      foundHook_def showErrorMessage_def)

lemma hookChain_result:
  "attemptFind hookChain None emptyWorld =
     (Inr (Some \<lparr>bin = ''/b/tool'', found_label = ''second'', found_kind = Path\<rparr>),
      emptyWorld\<lparr>log :=
        [LogEntry Err ''first Strategy returned an error'' [''hook failed''],
         LogEntry Debug ''Found by second'' [''/b/tool'']]\<rparr>)"
  by (simp add: hookChain_def demoStrategy_def emptyWorld_def checkCondition_def logger_def
      foundHook_def)

text \<open>
  C1, as the code has it. For every strategy list, resolution context and world,
  \<open>attemptFind\<close> has exactly three outcomes. It returns a result exactly when some
  strategy is the first success of the list: every strategy before it was passed over
  (precondition false, nothing found, an error raised by the lookup, or an error raised
  by the \<open>onSuccess\<close> hook), its own precondition passed, its lookup gave a location and
  its \<open>onSuccess\<close> hook, called with that location, returned normally. The result is the
  location tagged with the strategy's label and kind, and the world returned is the one
  the hook leaves: the hook has run and nothing after it has, the strategies behind the
  successful one do not occur in the outcome. It returns empty exactly when every
  strategy of the list was passed over. It raises an error exactly when the precondition
  of a strategy rejects with that error, every strategy before it having been passed
  over.
\<close>

theorem attemptFind_first_success:
  "(attemptFind sts path w = (Inr (Some r), w') \<longleftrightarrow> first_success sts path w r w') \<and>
   (attemptFind sts path w = (Inr None, w') \<longleftrightarrow> passed_over sts path w w') \<and>
   (attemptFind sts path w = (Inl err, w') \<longleftrightarrow> condition_raised sts path w err w')"
proof (intro conjI iffI)
  assume "attemptFind sts path w = (Inr (Some r), w')"
  from attemptFind_cases[OF this] show "first_success sts path w r w'" by simp
next
  assume "first_success sts path w r w'"
  then show "attemptFind sts path w = (Inr (Some r), w')" by (rule first_success_attemptFind)
next
  assume "attemptFind sts path w = (Inr None, w')"
  from attemptFind_cases[OF this] show "passed_over sts path w w'" by simp
next
  assume "passed_over sts path w w'"
  from passed_over_append[OF this, of "[]"] show "attemptFind sts path w = (Inr None, w')"
    by simp
next
  assume "attemptFind sts path w = (Inl err, w')"
  from attemptFind_cases[OF this] show "condition_raised sts path w err w'" by simp
next
  assume "condition_raised sts path w err w'"
  then show "attemptFind sts path w = (Inl err, w')" by (rule condition_raised_attemptFind)
qed

text \<open>
  On the chain of five, the fourth strategy is the first success: the gated strategy and
  the one after the hit have shown no message, the error and the empty lookup are logged,
  and the hook of the fourth has logged last. On the chain whose first hook throws, the
  second strategy is the first success. On the chain whose first precondition rejects,
  the error comes out.
\<close>

theorem attemptFind_first_success_witness:
  "first_success demoChain None emptyWorld
     \<lparr>bin = ''/opt/tool'', found_label = ''hit'', found_kind = Path\<rparr>
     (emptyWorld\<lparr>log :=
        [LogEntry Err ''throwing Strategy returned an error'' [''boom''],
         LogEntry Info ''Binary not found with strategy'' [''empty Strategy''],
         LogEntry Debug ''Found by hit'' [''/opt/tool'']]\<rparr>)
   \<and> \<not> passed_over demoChain None emptyWorld emptyWorld
   \<and> first_success hookChain None emptyWorld
       \<lparr>bin = ''/b/tool'', found_label = ''second'', found_kind = Path\<rparr>
       (emptyWorld\<lparr>log :=
          [LogEntry Err ''first Strategy returned an error'' [''hook failed''],
           LogEntry Debug ''Found by second'' [''/b/tool'']]\<rparr>)
   \<and> condition_raised rejectingChain None emptyWorld (Error ''no answer'') emptyWorld"
proof -
  have r: "attemptFind rejectingChain None emptyWorld = (Inl (Error ''no answer''), emptyWorld)"
    by (simp add: rejectingChain_def demoStrategy_def checkCondition_def)
  from attemptFind_first_success[of demoChain None emptyWorld
      "\<lparr>bin = ''/opt/tool'', found_label = ''hit'', found_kind = Path\<rparr>"
      "emptyWorld\<lparr>log :=
        [LogEntry Err ''throwing Strategy returned an error'' [''boom''],
         LogEntry Info ''Binary not found with strategy'' [''empty Strategy''],
         LogEntry Debug ''Found by hit'' [''/opt/tool'']]\<rparr>"]
    attemptFind_first_success[of demoChain None emptyWorld undefined emptyWorld]
    attemptFind_first_success[of hookChain None emptyWorld
      "\<lparr>bin = ''/b/tool'', found_label = ''second'', found_kind = Path\<rparr>"
      "emptyWorld\<lparr>log :=
          [LogEntry Err ''first Strategy returned an error'' [''hook failed''],
           LogEntry Debug ''Found by second'' [''/b/tool'']]\<rparr>"]
    attemptFind_first_success[of rejectingChain None emptyWorld undefined emptyWorld
      "Error ''no answer''"]
    demoChain_result hookChain_result r
  show ?thesis by simp
qed

text \<open>
  C1 as stated fails. In the chain of two, the first strategy has no precondition and its
  lookup yields \<open>/a/tool\<close>, yet the chain returns the result of the second strategy:
  the hook of the first threw, which the chain caught and logged before it went on and
  evaluated the second. In the chain whose first precondition rejects, no strategy yields
  a result and the chain does not return empty: it raises the error.
\<close>

theorem attemptFind_first_success_counterexample:
  "checkCondition (hd hookChain) None emptyWorld = (Inr True, emptyWorld)
   \<and> find' (strategy (hd hookChain)) None emptyWorld = (Inr (Some ''/a/tool''), emptyWorld)
   \<and> fst (attemptFind hookChain None emptyWorld)
       = Inr (Some \<lparr>bin = ''/b/tool'', found_label = ''second'', found_kind = Path\<rparr>)
   \<and> log (snd (attemptFind hookChain None emptyWorld))
       = [LogEntry Err ''first Strategy returned an error'' [''hook failed''],
          LogEntry Debug ''Found by second'' [''/b/tool'']]
   \<and> fst (attemptFind rejectingChain None emptyWorld) = Inl (Error ''no answer'')"
  unfolding hookChain_result
  by (simp add: hookChain_def rejectingChain_def demoStrategy_def checkCondition_def
      emptyWorld_def)

text \<open>
  C2. For every strategy list: when a strategy is reached (the strategies before it were
  passed over and its precondition holds) and its lookup raises an error, the chain
  catches the error, logs it at level error under the strategy's name, and goes on with
  the next strategy in order, from the world so logged, exactly as after a lookup that
  found nothing. So when the failed strategy is the last one the chain returns empty and
  the error stands in the log of the world returned; when the next strategy succeeds,
  the chain returns that strategy's result. The error of the lookup never leaves the
  chain: an error comes out of the chain only when the precondition of a later strategy
  rejects, and never when the later strategies have no precondition.
\<close>

theorem attemptFind_error_continues:
  assumes "passed_over pre path w w1"
    and "checkCondition s path w1 = (Inr True, w2)"
    and "find' (strategy s) path w2 = (Inl err, w3)"
  shows "attemptFind (pre @ s # rest) path w =
           attemptFind rest path
             (logger Err (name (strategy s) @ '' returned an error'') [message err] w3)
    \<and> attemptFind (pre @ [s]) path w =
          (Inr None, logger Err (name (strategy s) @ '' returned an error'') [message err] w3)
    \<and> (checkCondition t path
           (logger Err (name (strategy s) @ '' returned an error'') [message err] w3)
           = (Inr True, v1)
         \<and> find' (strategy t) path v1 = (Inr (Some b), v2)
         \<and> onSuccess t b v2 = (Inr (), v3)
         \<longrightarrow> attemptFind (pre @ s # t # post) path w =
               (Inr (Some \<lparr>bin = b, found_label = label t, found_kind = kind t\<rparr>), v3))
    \<and> (attemptFind (pre @ s # rest) path w = (Inl x, w')
         \<longrightarrow> condition_raised rest path
               (logger Err (name (strategy s) @ '' returned an error'') [message err] w3)
               x w')
    \<and> ((\<forall>t \<in> set rest. condition t = None)
         \<longrightarrow> (\<exists>r. fst (attemptFind (pre @ s # rest) path w) = Inr r))"
proof -
  let ?l = "logger Err (name (strategy s) @ '' returned an error'') [message err] w3"
  have step: "attemptFind (pre @ s # ss) path w = attemptFind ss path ?l" for ss
  proof -
    have "attemptFind (pre @ s # ss) path w = attemptFind (s # ss) path w1"
      using assms(1) by (rule passed_over_append)
    also have "\<dots> = attemptFind ss path ?l"
      using assms(2,3) by simp
    finally show ?thesis .
  qed
  have a: "attemptFind (pre @ s # rest) path w = attemptFind rest path ?l" by (rule step)
  have b: "attemptFind (pre @ [s]) path w = (Inr None, ?l)" using step[of "[]"] by simp
  have c: "attemptFind (pre @ s # t # post) path w =
        (Inr (Some \<lparr>bin = b, found_label = label t, found_kind = kind t\<rparr>), v3)"
    if "checkCondition t path ?l = (Inr True, v1) \<and> find' (strategy t) path v1 = (Inr (Some b), v2)
         \<and> onSuccess t b v2 = (Inr (), v3)"
    using that step[of "t # post"] by simp
  have d: "condition_raised rest path ?l x w'"
    if "attemptFind (pre @ s # rest) path w = (Inl x, w')"
  proof -
    from that a have "attemptFind rest path ?l = (Inl x, w')" by simp
    from attemptFind_cases[OF this] show ?thesis by simp
  qed
  have e: "\<exists>r. fst (attemptFind (pre @ s # rest) path w) = Inr r"
    if "\<forall>t \<in> set rest. condition t = None"
    unfolding a using that by (rule no_condition_no_error)
  from a b c d e show ?thesis by blast
qed

text \<open>
  On the chain of five, the second strategy raises \<open>boom\<close>. Cut after it, the chain
  returns empty with the error logged; whole, it returns the result of the fourth
  strategy, and the error stands first in the log.
\<close>

theorem attemptFind_error_continues_witness:
  "attemptFind (take 2 demoChain) None emptyWorld =
     (Inr None, emptyWorld\<lparr>log :=
        [LogEntry Err ''throwing Strategy returned an error'' [''boom'']]\<rparr>)
   \<and> attemptFind demoChain None emptyWorld =
       attemptFind (drop 2 demoChain) None
         (emptyWorld\<lparr>log := [LogEntry Err ''throwing Strategy returned an error'' [''boom'']]\<rparr>)
   \<and> fst (attemptFind demoChain None emptyWorld)
       = Inr (Some \<lparr>bin = ''/opt/tool'', found_label = ''hit'', found_kind = Path\<rparr>)"
proof -
  have p: "passed_over [hd demoChain] None emptyWorld emptyWorld"
    by (rule passed_over.skipped[OF _ passed_over.none_left])
       (simp add: demoChain_def demoStrategy_def checkCondition_def)
  have c: "checkCondition (demoChain ! 1) None emptyWorld = (Inr True, emptyWorld)"
    by (simp add: demoChain_def demoStrategy_def checkCondition_def)
  have f: "find' (strategy (demoChain ! 1)) None emptyWorld = (Inl (Error ''boom''), emptyWorld)"
    by (simp add: demoChain_def demoStrategy_def)
  have n: "name (strategy (demoChain ! 1)) = ''throwing Strategy''"
    by (simp add: demoChain_def demoStrategy_def)
  have d: "[hd demoChain] @ (demoChain ! 1) # drop 2 demoChain = demoChain"
    "[hd demoChain] @ [demoChain ! 1] = take 2 demoChain"
    by (simp_all add: demoChain_def)
  have l: "logger Err ''throwing Strategy returned an error'' [''boom''] emptyWorld =
      emptyWorld\<lparr>log := [LogEntry Err ''throwing Strategy returned an error'' [''boom'']]\<rparr>"
    by (simp add: logger_def emptyWorld_def)
  note t = attemptFind_error_continues[OF p c f, of "drop 2 demoChain"]
  from t[THEN conjunct1] have a: "attemptFind demoChain None emptyWorld =
      attemptFind (drop 2 demoChain) None
        (emptyWorld\<lparr>log := [LogEntry Err ''throwing Strategy returned an error'' [''boom'']]\<rparr>)"
    unfolding d n by (simp add: l)
  from t[THEN conjunct2, THEN conjunct1] have b: "attemptFind (take 2 demoChain) None emptyWorld =
     (Inr None, emptyWorld\<lparr>log :=
        [LogEntry Err ''throwing Strategy returned an error'' [''boom'']]\<rparr>)"
    unfolding d n by (simp add: l)
  have r: "fst (attemptFind demoChain None emptyWorld)
       = Inr (Some \<lparr>bin = ''/opt/tool'', found_label = ''hit'', found_kind = Path\<rparr>)"
    by (simp add: demoChain_result)
  from b a r show ?thesis by blast
qed

section \<open>Properties of provisioning\<close>

lemma copyToLocation_success:
  assumes "copyToLocation e b loc w = (Inr x, w1)"
  shows "x = loc"
    and "io_fault e (CreateDirectory (joinPath e (globalStorageUri e) [''tmp-bin''])) = None"
    and "io_fault e (Chmod loc 493) = None"
    and "fs_ops w1 = fs_ops w @ [CreateDirectory (joinPath e (globalStorageUri e) [''tmp-bin''])]
           @ (if fileExists w loc then [] else [CopyFile b loc]) @ [Chmod loc 493]"
    and "\<exists>f. (if fileExists w loc then files w loc else files w b) = Some f
           \<and> files w1 = (files w)(loc \<mapsto> f\<lparr>mode := 493\<rparr>)"
    and "messages w1 = messages w" and "log w1 = log w" and "globalState w1 = globalState w"
    and "tick w1 = tick w"
  using assms
  by (auto simp: copyToLocation_def createDirectory_def copyFileSync_def chmodSync_def
      fs_call_def fileExists_def Let_def
      split: option.splits if_splits prod.splits sum.splits)


lemma afterVersionCheck_fields:
  "files (afterVersionCheck e b w) = files w" "fs_ops (afterVersionCheck e b w) = fs_ops w"
  "log (afterVersionCheck e b w) = log w" "globalState (afterVersionCheck e b w) = globalState w"
  "tick (afterVersionCheck e b w) = tick w"
  by (simp_all add: afterVersionCheck_def showErrorMessage_def)

lemma copyBinary_unfold:
  "copyBinaryToTemporaryLocation e b w =
     (case copyToLocation e b (tmpLocation e (getVersion e b)) (afterVersionCheck e b w) of
        (Inr found, w1) \<Rightarrow> (Some found, w1)
      | (Inl error, w1) \<Rightarrow>
          (None, logger Warn (''Error copying binary: '' @ errorToString error) [] w1))"
  by (simp add: copyBinaryToTemporaryLocation_def afterVersionCheck_def Let_def)

lemma copyBinary_success:
  assumes "copyBinaryToTemporaryLocation e b w = (Some loc, w1)"
  shows "copyToLocation e b (tmpLocation e (getVersion e b)) (afterVersionCheck e b w) = (Inr loc, w1)"
  using assms unfolding copyBinary_unfold
  by (auto split: prod.splits sum.splits)

lemma fileExists_afterVersionCheck: "fileExists (afterVersionCheck e b w) p = fileExists w p"
  by (simp add: fileExists_def afterVersionCheck_fields)





lemma demo_provision:
  "copyBinaryToTemporaryLocation demoEnv ''/usr/local/bin/postgres-language-server'' binWorld =
     (Some ''/storage/tmp-bin/postgres-language-server-1.9.0'',
      binWorld\<lparr>files :=
         [''/usr/local/bin/postgres-language-server'' \<mapsto> \<lparr>content = ''ELF'', mode = 448\<rparr>,
          ''/storage/tmp-bin/postgres-language-server-1.9.0'' \<mapsto> \<lparr>content = ''ELF'', mode = 493\<rparr>],
        fs_ops := [CreateDirectory ''/storage/tmp-bin'',
          CopyFile ''/usr/local/bin/postgres-language-server''
            ''/storage/tmp-bin/postgres-language-server-1.9.0'',
          Chmod ''/storage/tmp-bin/postgres-language-server-1.9.0'' 493]\<rparr>)"
  by (simp add: copyBinaryToTemporaryLocation_def copyToLocation_def demoEnv_def binWorld_def
      emptyWorld_def tmpLocation_def js_replace_def newPlatformSpecificBinaryName_def
      startsWith_def
      template_def present_def createDirectory_def copyFileSync_def chmodSync_def fs_call_def
      fileExists_def Let_def)




text \<open>
  C7, as the code has it. A successful provisioning call makes these file-system calls
  and no others: it creates the cache directory, copies the original to the cache path
  when no file is there, and sets mode 0o755 on the cache path, whether it copied or
  reused. The file at the cache path ends with mode 0o755. The original, when it is not
  itself the cache path, is left as it was: its permission is read for the log and never
  set.
\<close>

theorem provisioning_chmods_copy:
  assumes "copyBinaryToTemporaryLocation e b w = (Some loc, w1)"
  shows "fs_ops w1 = fs_ops w @ [CreateDirectory (joinPath e (globalStorageUri e) [''tmp-bin''])]
           @ (if fileExists w loc then [] else [CopyFile b loc]) @ [Chmod loc 493]
    \<and> map_option mode (files w1 loc) = Some 493
    \<and> (b \<noteq> loc \<longrightarrow> files w1 b = files w b)"
proof -
  define l where "l = tmpLocation e (getVersion e b)"
  from copyBinary_success[OF assms]
  have s: "copyToLocation e b l (afterVersionCheck e b w) = (Inr loc, w1)" by (simp add: l_def)
  note f = copyToLocation_success[OF s]
  have loc: "loc = l" using f(1) .
  have ops: "fs_ops w1 = fs_ops w @ [CreateDirectory (joinPath e (globalStorageUri e) [''tmp-bin''])]
           @ (if fileExists w l then [] else [CopyFile b l]) @ [Chmod l 493]"
    using f(4) by (simp add: afterVersionCheck_fields fileExists_afterVersionCheck)
  from f(5) obtain g where g: "files w1 = (files w)(l \<mapsto> g\<lparr>mode := 493\<rparr>)"
    unfolding afterVersionCheck_fields by blast
  from ops g show ?thesis unfolding loc by simp
qed

theorem provisioning_chmods_copy_witness:
  "map_option mode (files (snd (copyBinaryToTemporaryLocation demoEnv
      ''/usr/local/bin/postgres-language-server'' binWorld))
      ''/storage/tmp-bin/postgres-language-server-1.9.0'') = Some 493
   \<and> files (snd (copyBinaryToTemporaryLocation demoEnv
      ''/usr/local/bin/postgres-language-server'' binWorld))
      ''/usr/local/bin/postgres-language-server'' =
     files binWorld ''/usr/local/bin/postgres-language-server''"
proof -
  define w1 where "w1 = snd (copyBinaryToTemporaryLocation demoEnv
      ''/usr/local/bin/postgres-language-server'' binWorld)"
  have p: "copyBinaryToTemporaryLocation demoEnv ''/usr/local/bin/postgres-language-server''
      binWorld = (Some ''/storage/tmp-bin/postgres-language-server-1.9.0'', w1)"
    by (simp add: w1_def demo_provision)
  from provisioning_chmods_copy[OF p] show ?thesis
    unfolding w1_def[symmetric] by simp
qed

text \<open>
  C7 as stated fails: provisioning an original of mode 0o700 (executable by its owner)
  succeeds, the only permission change is made on the cache copy, and the original keeps
  mode 0o700 instead of receiving 0o755.
\<close>

theorem provisioning_chmods_original_counterexample:
  "fileIsExecutable binWorld ''/usr/local/bin/postgres-language-server''
   \<and> fst (copyBinaryToTemporaryLocation demoEnv ''/usr/local/bin/postgres-language-server'' binWorld)
       = Some ''/storage/tmp-bin/postgres-language-server-1.9.0''
   \<and> fs_ops (snd (copyBinaryToTemporaryLocation demoEnv
         ''/usr/local/bin/postgres-language-server'' binWorld))
       = [CreateDirectory ''/storage/tmp-bin'',
          CopyFile ''/usr/local/bin/postgres-language-server''
            ''/storage/tmp-bin/postgres-language-server-1.9.0'',
          Chmod ''/storage/tmp-bin/postgres-language-server-1.9.0'' 493]
   \<and> map_option mode (files (snd (copyBinaryToTemporaryLocation demoEnv
         ''/usr/local/bin/postgres-language-server'' binWorld))
         ''/usr/local/bin/postgres-language-server'') = Some 448"
  unfolding demo_provision
  by (simp add: fileIsExecutable_def binWorld_def emptyWorld_def)

text \<open>
  C4. When the binary reports no version, \<open>copyBinaryToTemporaryLocation\<close> shows the
  user a message, continues with the missing version printed as \<open>undefined\<close> in the
  cache path, copies the binary there and returns that path: it raises nothing. Its sibling
  \<open>getDownloadedBinary\<close> raises an error in the same situation.
\<close>

theorem provisioning_without_version:
  "copyBinaryToTemporaryLocation (demoEnv\<lparr>getVersion := (\<lambda>p. None)\<rparr>)
      ''/usr/local/bin/postgres-language-server'' binWorld =
     (Some ''/storage/tmp-bin/postgres-language-server-undefined'',
      binWorld\<lparr>files :=
         [''/usr/local/bin/postgres-language-server'' \<mapsto> \<lparr>content = ''ELF'', mode = 448\<rparr>,
          ''/storage/tmp-bin/postgres-language-server-undefined'' \<mapsto> \<lparr>content = ''ELF'', mode = 493\<rparr>],
        fs_ops := [CreateDirectory ''/storage/tmp-bin'',
          CopyFile ''/usr/local/bin/postgres-language-server''
            ''/storage/tmp-bin/postgres-language-server-undefined'',
          Chmod ''/storage/tmp-bin/postgres-language-server-undefined'' 493],
        messages := [ErrorMessage
          ''Tried to copy binary to temporary location, but it does not exist. Invalid state.'']\<rparr>)
   \<and> getDownloadedBinary (demoEnv\<lparr>getVersion := (\<lambda>p. None)\<rparr>) downloadedWorld =
       Inl (Error ''Just verified file exists, but it doesn't anymore.'')"
  by (simp add: copyBinaryToTemporaryLocation_def copyToLocation_def demoEnv_def binWorld_def
      emptyWorld_def tmpLocation_def js_replace_def newPlatformSpecificBinaryName_def
      startsWith_def
      template_def present_def createDirectory_def copyFileSync_def chmodSync_def fs_call_def
      fileExists_def Let_def showErrorMessage_def getDownloadedBinary_def getNewInstalledBinaryPath_def
      getOldInstalledBinaryPath_def downloadedWorld_def globalStorageFolderForBinary_def
      oldPlatformSpecificBinaryName_def)

section \<open>Properties of the settings and of the download\<close>

text \<open>
  C9. For every configuration key and scope, \<open>getConfig\<close> returns the value under the
  new prefix \<open>postgres-language-server\<close> unless that value is undefined, null, the
  empty string or a boolean, and in those four cases it returns the value under the
  legacy prefix \<open>postgrestools\<close>. In particular a boolean under the new prefix is
  always passed over for the legacy value.
\<close>

theorem getConfig_new_then_legacy:
  "getConfig e key scope =
     (if configuration e ''postgres-language-server'' scope key = Undefined
         \<or> configuration e ''postgres-language-server'' scope key = Null
         \<or> configuration e ''postgres-language-server'' scope key = Str []
         \<or> (\<exists>b. configuration e ''postgres-language-server'' scope key = Bool b)
      then configuration e ''postgrestools'' scope key
      else configuration e ''postgres-language-server'' scope key)
   \<and> (configuration e ''postgres-language-server'' scope key = Bool b
        \<longrightarrow> getConfig e key scope = configuration e ''postgrestools'' scope key)"
  by (cases "configuration e ''postgres-language-server'' scope key")
     (simp_all add: getConfig_def)

text \<open>
  With \<open>enabled\<close> set to true under the new prefix and to false under the legacy one,
  \<open>getConfig\<close> answers false; a path under the new prefix wins over a legacy path.
\<close>

theorem getConfig_new_then_legacy_witness:
  "getConfig (demoEnv\<lparr>configuration := (\<lambda>prefix scope key.
       if prefix = ''postgres-language-server'' then Bool True else Bool False)\<rparr>)
     ''enabled'' None = Bool False
   \<and> getConfig (demoEnv\<lparr>configuration := (\<lambda>prefix scope key.
       if prefix = ''postgres-language-server'' then Str ''/opt/pgls'' else Str ''/opt/old'')\<rparr>)
     ''bin'' None = Str ''/opt/pgls''"
  using getConfig_new_then_legacy[of "demoEnv\<lparr>configuration := (\<lambda>prefix scope key.
       if prefix = ''postgres-language-server'' then Bool True else Bool False)\<rparr>" "''enabled''" None True]
    getConfig_new_then_legacy[of "demoEnv\<lparr>configuration := (\<lambda>prefix scope key.
       if prefix = ''postgres-language-server'' then Str ''/opt/pgls'' else Str ''/opt/old'')\<rparr>" "''bin''" None True]
  by auto

lemma demoEnv_downloadUrl:
  "downloadUrl demoEnv ''2.0.0'' =
     ''https://github.com/supabase-community/postgres-language-server/releases/download/2.0.0/postgres-language-server_x86_64-unknown-linux-gnu''"
  by (simp add: downloadUrl_def demoEnv_def hasNewName_def
      newPlatformSpecificReleasedAssetName_def releasedAssetName_def platformMappings_def
      archMappings_def)

text \<open>
  C8. For every selected version: when the fetch of the release asset fails, the download
  writes no file and makes no file-system call at all, and shows the user one error
  message, which names the version and the URL that failed, followed by the error; the
  failure is also logged.
\<close>

theorem downloadPgltVersion_fetch_fails:
  assumes "fetchGet e (downloadUrl e v) = Inl err"
  shows "files (downloadPgltVersion e v w) = files w
    \<and> fs_ops (downloadPgltVersion e v w) = fs_ops w
    \<and> messages (downloadPgltVersion e v w) =
        messages w @ [ErrorMessage (''Failed to download binary version '' @ v @ '' from ''
          @ downloadUrl e v @ ''.'' @ nl @ nl @ errorToString err)]
    \<and> log (downloadPgltVersion e v w) =
        log w @ [LogEntry Err ''Failed to download binary'' [message err]]"
  using assms by (simp add: downloadPgltVersion_def showErrorMessage_def logger_def)

theorem downloadPgltVersion_fetch_fails_witness:
  "files (downloadPgltVersion demoEnv ''2.0.0'' emptyWorld) = Map.empty
   \<and> fs_ops (downloadPgltVersion demoEnv ''2.0.0'' emptyWorld) = []
   \<and> messages (downloadPgltVersion demoEnv ''2.0.0'' emptyWorld) =
       [ErrorMessage (''Failed to download binary version 2.0.0 from https://github.com/supabase-community/postgres-language-server/releases/download/2.0.0/postgres-language-server_x86_64-unknown-linux-gnu.''
          @ nl @ nl @ ''TypeError: fetch failed'')]"
proof -
  have h: "fetchGet demoEnv (downloadUrl demoEnv ''2.0.0'') = Inl (Thrown ''TypeError'' ''fetch failed'')"
    by (simp add: demoEnv_def)
  from downloadPgltVersion_fetch_fails[OF h, of emptyWorld] show ?thesis
    by (simp add: demoEnv_downloadUrl emptyWorld_def errorToString_def)
qed

section \<open>Properties of the discovery strategies\<close>

lemma platformSetting_Str_truthy:
  assumes "platformSetting e v = Str s" and "s \<noteq> []"
  shows "truthy v"
  using assms by (cases v) (auto simp: platformSetting_def Let_def split: if_splits)

lemma binSettingEnv_setting:
  "s \<noteq> [] \<Longrightarrow>
     platformSetting (binSettingEnv s) (getConfig (binSettingEnv s) ''bin'' path) = Str s"
  "operatingMode (binSettingEnv s) = SingleRoot"
  by (simp_all add: binSettingEnv_def demoEnv_def getConfig_def platformSetting_def
      operatingMode_def Let_def)

text \<open>
  C5, as the code has it. The settings lookup treats a configured path as relative
  exactly when it begins with a dot. For every binary setting that begins with a dot
  (given as a plain string or under the platform's key of a mapping): outside multi-root
  mode and with a project root, the lookup resolves it to \<open>Uri.joinPath(root, setting)\<close>
  and returns that location when a file exists there and nothing otherwise, showing no
  message; in multi-root mode it shows the user an error message and returns nothing.
\<close>

theorem vsCodeSettings_dot_path:
  assumes "platformSetting e (getConfig e ''bin'' path) = Str s" and "startsWith s ''.''"
  shows "(operatingMode e \<noteq> MultiRoot \<and> path = Some root \<and> joinPath e root [s] \<noteq> [] \<longrightarrow>
            vsCodeSettingsFind e path w =
              (if fileExists w (uriFile e (joinPath e root [s]))
               then Inr (Some (uriFile e (joinPath e root [s]))) else Inr None, w))
       \<and> (operatingMode e = MultiRoot \<longrightarrow>
            vsCodeSettingsFind e path w =
              (Inr None,
               showErrorMessage
                 ''Relative paths for the postgres language server binary in a multi-root workspace setting are not supported. Please use an absolute path in your `*.code-workspace` file.''
                 w))"
proof -
  from assms(2) have "s \<noteq> []" by (auto simp: startsWith_def)
  with assms(1) have t: "truthy (getConfig e ''bin'' path)" by (rule platformSetting_Str_truthy)
  show ?thesis
  proof (intro conjI impI)
    assume "operatingMode e \<noteq> MultiRoot \<and> path = Some root \<and> joinPath e root [s] \<noteq> []"
    with assms t show "vsCodeSettingsFind e path w =
              (if fileExists w (uriFile e (joinPath e root [s]))
               then Inr (Some (uriFile e (joinPath e root [s]))) else Inr None, w)"
      by (simp add: vsCodeSettingsFind_def lookForBinary_def Let_def)
  next
    assume "operatingMode e = MultiRoot"
    with assms t show "vsCodeSettingsFind e path w =
              (Inr None,
               showErrorMessage
                 ''Relative paths for the postgres language server binary in a multi-root workspace setting are not supported. Please use an absolute path in your `*.code-workspace` file.''
                 w)"
      by (simp add: vsCodeSettingsFind_def Let_def)
  qed
qed

text \<open>
  With the setting \<open>./bin/pgls\<close> and the project root \<open>/proj\<close> the lookup returns
  \<open>/proj/bin/pgls\<close>; with two workspace folders it shows the error and returns nothing.
\<close>

theorem vsCodeSettings_dot_path_witness:
  "vsCodeSettingsFind (binSettingEnv ''./bin/pgls'') (Some ''/proj'') projWorld =
     (Inr (Some ''/proj/bin/pgls''), projWorld)
   \<and> vsCodeSettingsFind ((binSettingEnv ''./bin/pgls'')\<lparr>workspaceFolders := Some [''/a'', ''/b'']\<rparr>)
       None projWorld =
     (Inr None, projWorld\<lparr>messages := [ErrorMessage
        ''Relative paths for the postgres language server binary in a multi-root workspace setting are not supported. Please use an absolute path in your `*.code-workspace` file.'']\<rparr>)"
proof -
  have a: "platformSetting (binSettingEnv ''./bin/pgls'')
      (getConfig (binSettingEnv ''./bin/pgls'') ''bin'' (Some ''/proj'')) = Str ''./bin/pgls''"
    by (rule binSettingEnv_setting) simp
  have b: "startsWith ''./bin/pgls'' ''.''" by (simp add: startsWith_def)
  have j: "joinPath (binSettingEnv ''./bin/pgls'') ''/proj'' [''./bin/pgls''] = ''/proj/bin/pgls''"
    "uriFile (binSettingEnv ''./bin/pgls'') ''/proj/bin/pgls'' = ''/proj/bin/pgls''"
    "fileExists projWorld ''/proj/bin/pgls''"
    by (simp_all add: binSettingEnv_def demoEnv_def startsWith_def fileExists_def projWorld_def
        emptyWorld_def)
  let ?m = "(binSettingEnv ''./bin/pgls'')\<lparr>workspaceFolders := Some [''/a'', ''/b'']\<rparr>"
  have a': "platformSetting ?m (getConfig ?m ''bin'' None) = Str ''./bin/pgls''"
    by (simp add: binSettingEnv_def demoEnv_def getConfig_def platformSetting_def Let_def)
  have m: "operatingMode ?m = MultiRoot" by (simp add: operatingMode_def)
  from vsCodeSettings_dot_path[OF a b, of "''/proj''" projWorld]
    vsCodeSettings_dot_path[OF a' b, of "''/proj''" projWorld]
  show ?thesis
    using j m by (simp add: binSettingEnv_setting showErrorMessage_def projWorld_def emptyWorld_def)
qed

text \<open>
  C5 as stated fails for a relative path that does not begin with a dot: with the
  setting \<open>bin/pgls\<close>, a single project root \<open>/proj\<close> and a file at
  \<open>/proj/bin/pgls\<close>, the lookup does not resolve to that file and returns nothing.
\<close>

theorem vsCodeSettings_relative_counterexample:
  "\<not> startsWith ''bin/pgls'' ''/''
   \<and> operatingMode (binSettingEnv ''bin/pgls'') = SingleRoot
   \<and> joinPath (binSettingEnv ''bin/pgls'') ''/proj'' [''bin/pgls''] = ''/proj/bin/pgls''
   \<and> fileExists projWorld ''/proj/bin/pgls''
   \<and> vsCodeSettingsFind (binSettingEnv ''bin/pgls'') (Some ''/proj'') projWorld
       = (Inr None, projWorld)"
  by (simp add: binSettingEnv_setting)
     (simp add: vsCodeSettingsFind_def lookForBinary_def binSettingEnv_def demoEnv_def
      getConfig_def platformSetting_def operatingMode_def startsWith_def fileExists_def
      projWorld_def emptyWorld_def Let_def)

lemma vsCodeSettingsFind_exists:
  "vsCodeSettingsFind e path w = (Inr (Some b), w') \<Longrightarrow> fileExists w' b"
  by (auto simp: vsCodeSettingsFind_def lookForBinary_def Let_def
      split: if_splits jsvalue.splits option.splits)

lemma nodeModulesPackages_exists:
  "nodeModulesPackages e w p cands = Inr (Some b) \<Longrightarrow> fileExists w b"
proof (induction cands)
  case Nil
  then show ?case by simp
next
  case (Cons c rest)
  obtain pkgname nodePkgName binaryName where c: "c = (pkgname, nodePkgName, binaryName)"
    by (cases c)
  show ?case
  proof (cases "requireResolve e (pkgname @ ''/package.json'') [p]")
    case (Inl err)
    with Cons c show ?thesis by (simp split: if_splits)
  next
    case (Inr mainPackageJson)
    show ?thesis
    proof (cases nodePkgName)
      case None
      with Inr Cons.prems c show ?thesis by simp
    next
      case (Some n)
      show ?thesis
      proof (cases "createRequireResolve e mainPackageJson (n @ ''/package.json'')")
        case (Inl err)
        with Inr Some Cons.prems c show ?thesis by simp
      next
        case resolved: (Inr resolved)
        let ?bin = "uriFile e (pathJoin e (dirname e resolved) binaryName)"
        show ?thesis
        proof (cases "fileExists w ?bin")
          case True
          with Inr Some resolved Cons.prems c have "b = ?bin" by (simp add: Let_def)
          with True show ?thesis by simp
        next
          case False
          with Inr Some resolved Cons.prems c
          have "nodeModulesPackages e w p rest = Inr (Some b)" by (simp add: Let_def)
          then show ?thesis by (rule Cons.IH)
        qed
      qed
    qed
  qed
qed

lemma nodeModulesFind_exists:
  "nodeModulesFind e path w = (Inr (Some b), w') \<Longrightarrow> fileExists w' b"
  by (auto simp: nodeModulesFind_def split: option.splits dest: nodeModulesPackages_exists)

lemma pathBinaryNames_exists:
  "pathBinaryNames e w dir names = Some b \<Longrightarrow> fileExists w b"
  by (induction names) (auto simp: Let_def split: if_splits)

lemma pathDirectories_exists:
  "pathDirectories e w dirs = Some b \<Longrightarrow> fileExists w b"
proof (induction dirs)
  case Nil
  then show ?case by simp
next
  case (Cons dir dirs)
  show ?case
  proof (cases "pathBinaryNames e w dir
      [newPlatformSpecificBinaryName e, oldPlatformSpecificBinaryName e]")
    case None
    with Cons show ?thesis by (simp del: pathBinaryNames.simps)
  next
    case (Some found)
    with Cons.prems have "found = b" by (simp del: pathBinaryNames.simps)
    with pathBinaryNames_exists[OF Some] show ?thesis by simp
  qed
qed

lemma pathEnvironmentVariableFind_exists:
  "pathEnvironmentVariableFind e path w = (Inr (Some b), w') \<Longrightarrow> fileExists w' b"
  by (auto simp: pathEnvironmentVariableFind_def split: option.splits if_splits
      dest: pathDirectories_exists)

lemma getDownloadedBinaryIn_exists:
  "getDownloadedBinaryIn e w bins = Inr (Some d) \<Longrightarrow> fileExists w (binPath d)"
  by (induction bins) (auto split: if_splits)

lemma getDownloadedBinary_exists:
  "getDownloadedBinary e w = Inr (Some d) \<Longrightarrow> fileExists w (binPath d)"
  unfolding getDownloadedBinary_def by (rule getDownloadedBinaryIn_exists)

lemma downloadPglt_exists:
  assumes "downloadPglt e w = (Inr (Some b), w')"
  shows "fileExists w' b"
proof (cases "promptVersionToDownload e w")
  case None
  with assms show ?thesis by (simp add: downloadPglt_def)
next
  case (Some item)
  let ?w1 = "downloadPgltVersion e (item_label item) w"
  show ?thesis
  proof (cases "getDownloadedBinary e ?w1")
    case (Inl err)
    with Some assms show ?thesis by (simp add: downloadPglt_def Let_def)
  next
    case (Inr d)
    with Some assms have "w' = ?w1" "map_option binPath d = Some b"
      by (simp_all add: downloadPglt_def Let_def)
    then obtain z where "d = Some z" "binPath z = b" by auto
    with Inr \<open>w' = ?w1\<close> show ?thesis by (auto dest: getDownloadedBinary_exists)
  qed
qed

lemma downloadPgltFind_exists:
  assumes "downloadPgltFind e path w = (Inr (Some b), w')"
  shows "fileExists w' b"
proof (cases "getDownloadedBinary e w")
  case (Inl err)
  with assms show ?thesis by (simp add: downloadPgltFind_def)
next
  case (Inr d)
  show ?thesis
  proof (cases d)
    case (Some z)
    with Inr assms have "w' = w" "binPath z = b" by (simp_all add: downloadPgltFind_def)
    with Inr Some show ?thesis by (auto dest: getDownloadedBinary_exists)
  next
    case None
    with Inr assms have "downloadPglt e (showInformationMessage downloadQuestion w)
        = (Inr (Some b), w')"
      by (simp add: downloadPgltFind_def Let_def split: if_splits)
    then show ?thesis by (rule downloadPglt_exists)
  qed
qed

lemma fileExists_logger: "fileExists (logger l m a w) b = fileExists w b"
  by (simp add: logger_def fileExists_def)

lemma checkedI:
  assumes "\<And>path w b w'. f path w = (Inr (Some b), w') \<Longrightarrow> fileExists w' b"
  shows "checked \<lparr>label = l, kind = k, strategy = \<lparr>name = n, find' = f\<rparr>,
                  onSuccess = foundHook m, condition = c\<rparr>"
  unfolding checked_def using assms by (auto simp: foundHook_def fileExists_logger)

lemma official_checked:
  assumes "s \<in> set (LOCAL_STRATEGIES e) \<union> set (GLOBAL_STRATEGIES e)" and "kind s \<noteq> Yarn"
  shows "checked s"
proof -
  have l: "\<forall>t \<in> set (LOCAL_STRATEGIES e). kind t \<noteq> Yarn \<longrightarrow> checked t"
    unfolding LOCAL_STRATEGIES_def vsCodeSettingsStrategy_def nodeModulesStrategy_def
      pathEnvironmentVariableStrategy_def downloadPgltStrategy_def
    by (simp add: checkedI[OF vsCodeSettingsFind_exists] checkedI[OF nodeModulesFind_exists]
        checkedI[OF pathEnvironmentVariableFind_exists] checkedI[OF downloadPgltFind_exists])
  have g: "\<forall>t \<in> set (GLOBAL_STRATEGIES e). checked t"
    unfolding GLOBAL_STRATEGIES_def vsCodeSettingsStrategy_def
      pathEnvironmentVariableStrategy_def downloadPgltStrategy_def
    by (simp add: checkedI[OF vsCodeSettingsFind_exists]
        checkedI[OF pathEnvironmentVariableFind_exists] checkedI[OF downloadPgltFind_exists])
  from assms l g show ?thesis by blast
qed

lemma attemptFind_checked:
  assumes "attemptFind sts path w = (Inr (Some r), w')"
  shows "\<exists>s \<in> set sts. kind s = found_kind r \<and> (checked s \<longrightarrow> fileExists w' (bin r))"
proof -
  from attemptFind_cases[OF assms] have "first_success sts path w r w'" by simp
  then obtain pre s post w2 w3 b where d: "sts = pre @ s # post"
    "find' (strategy s) path w2 = (Inr (Some b), w3)"
    "onSuccess s b w3 = (Inr (), w')"
    "r = \<lparr>bin = b, found_label = label s, found_kind = kind s\<rparr>"
    unfolding first_success_def by blast
  from d(2,3) have "checked s \<longrightarrow> fileExists w' b" unfolding checked_def by blast
  with d(1,4) show ?thesis by auto
qed

lemma demo_global:
  "attemptFind (GLOBAL_STRATEGIES demoEnv) None binWorld =
     (Inr (Some \<lparr>bin = ''/usr/local/bin/postgres-language-server'',
            found_label = ''PATH Environment Variable'', found_kind = Path\<rparr>),
      binWorld\<lparr>log :=
        [LogEntry Info ''Binary not found with strategy'' [''VSCode Settings Strategy''],
         LogEntry Debug ''Found Binary in PATH Environment Variable''
           [''/usr/local/bin/postgres-language-server'']]\<rparr>)"
  by (simp add: GLOBAL_STRATEGIES_def checkCondition_def vsCodeSettingsStrategy_def
      vsCodeSettingsFind_def getConfig_def pathEnvironmentVariableStrategy_def
      pathEnvironmentVariableFind_def demoEnv_def binWorld_def emptyWorld_def
      newPlatformSpecificBinaryName_def oldPlatformSpecificBinaryName_def startsWith_def
      fileExists_def logger_def foundHook_def Let_def)

lemma demo_local:
  "attemptFind (LOCAL_STRATEGIES demoEnv) (Some ''/proj'') binWorld =
     (Inr (Some \<lparr>bin = ''/usr/local/bin/postgres-language-server'',
            found_label = ''PATH Environment Variable'', found_kind = Path\<rparr>),
      binWorld\<lparr>log :=
        [LogEntry Info ''Binary not found with strategy'' [''VSCode Settings Strategy''],
         LogEntry Info ''Binary not found with strategy'' [''Node Modules Strategy''],
         LogEntry Info ''Binary not found with strategy'' [''Yarn PnP Strategy''],
         LogEntry Debug ''Found Binary in PATH Environment Variable''
           [''/usr/local/bin/postgres-language-server'']]\<rparr>)"
  by (simp add: LOCAL_STRATEGIES_def checkCondition_def vsCodeSettingsStrategy_def
      vsCodeSettingsFind_def getConfig_def nodeModulesStrategy_def nodeModulesFind_def
      packageCandidates_def newPackageName_def oldPackageName_def
      newPlatformSpecificNodePackageName_def oldPlatformSpecificNodePackageName_def
      platformPackage_def NEW_PACKAGE_NAMES_def OLD_PACKAGE_NAMES_def
      toLowerCase_def lowerChar_def
      yarnPnpStrategy_def yarnPnpFind_def pathEnvironmentVariableStrategy_def
      pathEnvironmentVariableFind_def demoEnv_def binWorld_def emptyWorld_def
      newPlatformSpecificBinaryName_def oldPlatformSpecificBinaryName_def startsWith_def
      fileExists_def logger_def foundHook_def Let_def)

lemma demo_pnp:
  "attemptFind (LOCAL_STRATEGIES pnpEnv) (Some ''/proj'') pnpWorld =
     (Inr (Some \<lparr>bin = ''/proj/.yarn/cache/cli-x86_64-linux-gnu.zip/node_modules/@postgres-language-server/cli-x86_64-linux-gnu/postgres-language-server'',
            found_label = ''Yarn Plug'n'Play node_modules'', found_kind = Yarn\<rparr>),
      pnpWorld\<lparr>log :=
        [LogEntry Info ''Binary not found with strategy'' [''VSCode Settings Strategy''],
         LogEntry Info ''Binary not found with strategy'' [''Node Modules Strategy''],
         LogEntry Debug ''Found Binary in Yarn PnP''
           [''/proj/.yarn/cache/cli-x86_64-linux-gnu.zip/node_modules/@postgres-language-server/cli-x86_64-linux-gnu/postgres-language-server'']]\<rparr>)"
  by (simp add: LOCAL_STRATEGIES_def checkCondition_def vsCodeSettingsStrategy_def
      vsCodeSettingsFind_def getConfig_def nodeModulesStrategy_def nodeModulesFind_def
      packageCandidates_def newPackageName_def oldPackageName_def
      newPlatformSpecificNodePackageName_def oldPlatformSpecificNodePackageName_def
      platformPackage_def NEW_PACKAGE_NAMES_def OLD_PACKAGE_NAMES_def
      toLowerCase_def lowerChar_def
      yarnPnpStrategy_def yarnPnpFind_def pnpEnv_def demoEnv_def pnpWorld_def emptyWorld_def
      newPlatformSpecificBinaryName_def oldPlatformSpecificBinaryName_def startsWith_def
      fileExists_def logger_def foundHook_def Let_def)

text \<open>
  C3, as the code has it. The chain makes no existence check of its own: it fires
  \<open>onSuccess\<close> on the location the strategy returned. For every chain built from the
  strategies of the two orderings, the Yarn Plug'n'Play strategy among them, a location
  that the chain accepts from a strategy other than Yarn Plug'n'Play (settings,
  node_modules, PATH, download) exists when \<open>onSuccess\<close> has fired, because each of
  these strategies checks existence itself before it returns.
\<close>

theorem checked_strategies_exist:
  assumes "\<forall>s \<in> set sts. s \<in> set (LOCAL_STRATEGIES e) \<union> set (GLOBAL_STRATEGIES e)"
    and "attemptFind sts path w = (Inr (Some r), w')"
    and "found_kind r \<noteq> Yarn"
  shows "fileExists w' (bin r)"
proof -
  from attemptFind_checked[OF assms(2)] obtain s where s: "s \<in> set sts"
    "kind s = found_kind r" "checked s \<longrightarrow> fileExists w' (bin r)" by blast
  from s(1) assms(1) have "s \<in> set (LOCAL_STRATEGIES e) \<union> set (GLOBAL_STRATEGIES e)"
    by blast
  moreover from s(2) assms(3) have "kind s \<noteq> Yarn" by simp
  ultimately have "checked s" by (rule official_checked)
  with s(3) show ?thesis by simp
qed

text \<open>
  The local ordering on the Linux host, the Yarn Plug'n'Play strategy in it, with the
  binary in the first directory of the search path: the chain accepts that binary from
  the PATH strategy, and it exists.
\<close>

theorem checked_strategies_exist_witness:
  "fst (attemptFind (LOCAL_STRATEGIES demoEnv) (Some ''/proj'') binWorld) =
     Inr (Some \<lparr>bin = ''/usr/local/bin/postgres-language-server'',
           found_label = ''PATH Environment Variable'', found_kind = Path\<rparr>)
   \<and> fileExists (snd (attemptFind (LOCAL_STRATEGIES demoEnv) (Some ''/proj'') binWorld))
       ''/usr/local/bin/postgres-language-server''"
proof -
  have h: "\<forall>s \<in> set (LOCAL_STRATEGIES demoEnv).
      s \<in> set (LOCAL_STRATEGIES demoEnv) \<union> set (GLOBAL_STRATEGIES demoEnv)"
    by blast
  from checked_strategies_exist[OF h demo_local] show ?thesis
    unfolding demo_local by simp
qed

text \<open>
  C3 as stated fails: with a Plug'n'Play manifest in the project and a resolver that
  answers with a path inside a zip archive of the package cache, the local ordering
  accepts that path from the Yarn Plug'n'Play strategy and fires its \<open>onSuccess\<close> hook
  (the last log entry), although no file exists there, before or after.
\<close>

theorem accepted_location_exists_counterexample:
  "fst (attemptFind (LOCAL_STRATEGIES pnpEnv) (Some ''/proj'') pnpWorld) =
     Inr (Some \<lparr>bin = ''/proj/.yarn/cache/cli-x86_64-linux-gnu.zip/node_modules/@postgres-language-server/cli-x86_64-linux-gnu/postgres-language-server'',
           found_label = ''Yarn Plug'n'Play node_modules'', found_kind = Yarn\<rparr>)
   \<and> log (snd (attemptFind (LOCAL_STRATEGIES pnpEnv) (Some ''/proj'') pnpWorld)) =
        [LogEntry Info ''Binary not found with strategy'' [''VSCode Settings Strategy''],
         LogEntry Info ''Binary not found with strategy'' [''Node Modules Strategy''],
         LogEntry Debug ''Found Binary in Yarn PnP''
           [''/proj/.yarn/cache/cli-x86_64-linux-gnu.zip/node_modules/@postgres-language-server/cli-x86_64-linux-gnu/postgres-language-server'']]
   \<and> \<not> fileExists pnpWorld
        ''/proj/.yarn/cache/cli-x86_64-linux-gnu.zip/node_modules/@postgres-language-server/cli-x86_64-linux-gnu/postgres-language-server''
   \<and> \<not> fileExists (snd (attemptFind (LOCAL_STRATEGIES pnpEnv) (Some ''/proj'') pnpWorld))
        ''/proj/.yarn/cache/cli-x86_64-linux-gnu.zip/node_modules/@postgres-language-server/cli-x86_64-linux-gnu/postgres-language-server''"
  unfolding demo_pnp by (simp add: fileExists_def pnpWorld_def emptyWorld_def)

section \<open>Properties of session creation\<close>

lemma notifyOfUpdate_messages:
  "messages (notifyOfUpdate e fr v w) =
     messages w @ (if updateDue e w \<and> versionOutdated e v
                   then [InformationMessage (outdatedMessage e fr v)] else [])"
  by (simp add: notifyOfUpdate_def showInformationMessage_def Let_def)

lemma notifyOfUpdate_globalState:
  "globalState (notifyOfUpdate e fr v w) =
     (if updateDue e w
      then (globalState w)(''lastNotifiedOfUpdate'' \<mapsto> toISOString e (clock e (Suc (tick w))))
      else globalState w)"
  by (simp add: notifyOfUpdate_def showInformationMessage_def Let_def)

lemma updateDue_elapsed:
  "updateDue e w \<longleftrightarrow>
     (\<exists>t. dateGetTime e (lastNotifiedOfUpdate e w) = Some t \<and> clock e (tick w) - t > daysToMs e 3)"
  by (simp add: updateDue_def split: option.splits)

lemma not_due_after_stamp:
  assumes "stamp \<noteq> []" and "dateGetTime e stamp = Some t"
    and "globalState w' ''lastNotifiedOfUpdate'' = Some stamp"
    and "clock e (tick w') - t \<le> daysToMs e 3"
  shows "\<not> updateDue e w'"
  using assms by (simp add: updateDue_def lastNotifiedOfUpdate_def)

lemma copyToLocation_keeps:
  "globalState (snd (copyToLocation e b loc w)) = globalState w"
  "messages (snd (copyToLocation e b loc w)) = messages w"
  by (auto simp: copyToLocation_def createDirectory_def copyFileSync_def chmodSync_def
      fs_call_def Let_def split: option.splits if_splits prod.splits sum.splits)


lemma copyBinary_keeps:
  "globalState (snd (copyBinaryToTemporaryLocation e b w)) = globalState w"
  "messages (snd (copyBinaryToTemporaryLocation e b w)) = messages (afterVersionCheck e b w)"
proof -
  let ?r = "copyToLocation e b (tmpLocation e (getVersion e b)) (afterVersionCheck e b w)"
  have g: "globalState (afterVersionCheck e b w) = globalState w"
    by (rule afterVersionCheck_fields)
  obtain res w1 where r: "?r = (res, w1)" by (cases ?r)
  from copyToLocation_keeps[of e b "tmpLocation e (getVersion e b)" "afterVersionCheck e b w"] r
  have k: "globalState w1 = globalState w" "messages w1 = messages (afterVersionCheck e b w)"
    using g by simp_all
  show "globalState (snd (copyBinaryToTemporaryLocation e b w)) = globalState w"
    unfolding copyBinary_unfold r using k(1) by (cases res) (simp_all add: logger_def)
  show "messages (snd (copyBinaryToTemporaryLocation e b w)) = messages (afterVersionCheck e b w)"
    unfolding copyBinary_unfold r using k(2) by (cases res) (simp_all add: logger_def)
qed

lemma finishSession_keeps:
  "globalState (snd (finishSession e projects fr w)) = globalState w"
  "present (getVersion e (bin fr)) \<Longrightarrow>
     messages (snd (finishSession e projects fr w)) = messages w"
proof -
  obtain t w1 where c: "copyBinaryToTemporaryLocation e (bin fr) w = (t, w1)"
    by (cases "copyBinaryToTemporaryLocation e (bin fr) w")
  from copyBinary_keeps[of e "bin fr" w] c
  have k: "globalState w1 = globalState w"
    "messages w1 = messages (afterVersionCheck e (bin fr) w)"
    by simp_all
  show "globalState (snd (finishSession e projects fr w)) = globalState w"
    using c k(1) by (simp add: finishSession_def logger_def)
  show "messages (snd (finishSession e projects fr w)) = messages w"
    if "present (getVersion e (bin fr))"
    using c k(2) that by (simp add: finishSession_def logger_def afterVersionCheck_def)
qed

lemma createSession_notifies:
  assumes "findBinary e projects w = (Inr (Some fr), w1)" and "fileIsExecutable w1 (bin fr)"
    and "getVersion e (bin fr) = Some v" and "v \<noteq> []"
  shows "globalState (snd (createSession e projects w)) = globalState (notifyOfUpdate e fr v w1)"
    and "messages (snd (createSession e projects w)) =
           messages (notifyOfUpdate e fr v w1)
           @ (if operatingMode e = MultiRoot \<and> semverGte e v ''0.8.0'' = Inr False
              then [InformationMessage (multiRootNotice v)] else [])"
proof -
  let ?w2 = "notifyOfUpdate e fr v w1"
  let ?note = "showInformationMessage (multiRootNotice v) ?w2"
  from assms(3,4) have p: "present (getVersion e (bin fr))" by (simp add: present_def)
  have c: "createSession e projects w =
     (if operatingMode e = MultiRoot then
        (case semverGte e v ''0.8.0'' of
           Inl err \<Rightarrow> (Inl err, ?w2)
         | Inr ok \<Rightarrow> finishSession e projects fr (if \<not> ok then ?note else ?w2))
      else finishSession e projects fr ?w2)"
    using assms by (simp add: createSession_def present_def template_def Let_def)
  have n: "globalState ?note = globalState ?w2"
    "messages ?note = messages ?w2 @ [InformationMessage (multiRootNotice v)]"
    by (simp_all add: showInformationMessage_def)
  show "globalState (snd (createSession e projects w)) = globalState ?w2"
    unfolding c using n(1)
    by (auto simp: finishSession_keeps(1) split: sum.splits)
  show "messages (snd (createSession e projects w)) =
           messages ?w2
           @ (if operatingMode e = MultiRoot \<and> semverGte e v ''0.8.0'' = Inr False
              then [InformationMessage (multiRootNotice v)] else [])"
  proof (cases "operatingMode e = MultiRoot")
    case False
    then show ?thesis unfolding c by (simp add: finishSession_keeps(2)[OF p])
  next
    case True
    show ?thesis
    proof (cases "semverGte e v ''0.8.0''")
      case (Inl err)
      with True show ?thesis unfolding c by simp
    next
      case (Inr ok)
      with True show ?thesis unfolding c
        by (cases ok) (simp_all add: finishSession_keeps(2)[OF p] n(2))
    qed
  qed
qed

lemma demo_findBinary:
  "findBinary demoEnv [demoProject] binWorld =
     (Inr (Some pathResult),
      binWorld\<lparr>log :=
        [LogEntry Info ''Using Local Strategies to find binary'' [],
         LogEntry Info ''Binary not found with strategy'' [''VSCode Settings Strategy''],
         LogEntry Info ''Binary not found with strategy'' [''Node Modules Strategy''],
         LogEntry Info ''Binary not found with strategy'' [''Yarn PnP Strategy''],
         LogEntry Debug ''Found Binary in PATH Environment Variable''
           [''/usr/local/bin/postgres-language-server'']]\<rparr>)"
  by (simp add: findBinary_def findLocally_def operatingMode_def demoProject_def pathResult_def
      LOCAL_STRATEGIES_def checkCondition_def vsCodeSettingsStrategy_def
      vsCodeSettingsFind_def getConfig_def nodeModulesStrategy_def nodeModulesFind_def
      packageCandidates_def newPackageName_def oldPackageName_def
      newPlatformSpecificNodePackageName_def oldPlatformSpecificNodePackageName_def
      platformPackage_def NEW_PACKAGE_NAMES_def OLD_PACKAGE_NAMES_def
      toLowerCase_def lowerChar_def
      yarnPnpStrategy_def yarnPnpFind_def pathEnvironmentVariableStrategy_def
      pathEnvironmentVariableFind_def demoEnv_def binWorld_def emptyWorld_def
      newPlatformSpecificBinaryName_def oldPlatformSpecificBinaryName_def startsWith_def
      fileExists_def logger_def foundHook_def Let_def)

text \<open>
  C10. The update check of session creation (lines 71 to 88 of \<open>createSession\<close>) is
  due exactly when the stored \<open>lastNotifiedOfUpdate\<close> (the epoch when nothing is stored)
  is a date and more than three days lie between it and the current time. The check
  shows the outdated-version notification exactly when it is due and the installed
  version is outdated, and shows nothing else. Whenever it is due it overwrites
  \<open>lastNotifiedOfUpdate\<close> with the current time (the clock's next reading), whether or
  not the version is outdated and a notification was shown; when it is not due the stored
  value stays. Hence, the stored time being read back as written: after a due check any
  later check that finds this stored value and runs within three days of it shows no
  notification, whatever the binary and version. Session creation that has found an
  executable binary with a version runs this check from the world discovery left: its
  final global state is the one the check leaves, and its messages are the check's,
  followed by the notice on multi-root workspaces exactly when the extension runs in
  multi-root mode and the version is below 0.8.0, and by nothing else.
\<close>

theorem notifyOfUpdate_three_days:
  "messages (notifyOfUpdate e fr v w) =
     messages w @ (if updateDue e w \<and> versionOutdated e v
                   then [InformationMessage (outdatedMessage e fr v)] else [])
   \<and> globalState (notifyOfUpdate e fr v w) =
       (if updateDue e w
        then (globalState w)(''lastNotifiedOfUpdate'' \<mapsto> toISOString e (clock e (Suc (tick w))))
        else globalState w)
   \<and> (updateDue e w \<longleftrightarrow>
        (\<exists>t. dateGetTime e (lastNotifiedOfUpdate e w) = Some t
             \<and> clock e (tick w) - t > daysToMs e 3))
   \<and> (updateDue e w
        \<and> toISOString e (clock e (Suc (tick w))) \<noteq> []
        \<and> dateGetTime e (toISOString e (clock e (Suc (tick w)))) = Some (clock e (Suc (tick w)))
        \<and> globalState w' ''lastNotifiedOfUpdate''
            = globalState (notifyOfUpdate e fr v w) ''lastNotifiedOfUpdate''
        \<and> clock e (tick w') - clock e (Suc (tick w)) \<le> daysToMs e 3
        \<longrightarrow> messages (notifyOfUpdate e fr' v' w') = messages w')
   \<and> (findBinary e projects w0 = (Inr (Some fr), w) \<and> fileIsExecutable w (bin fr)
        \<and> getVersion e (bin fr) = Some v \<and> v \<noteq> []
        \<longrightarrow> globalState (snd (createSession e projects w0))
              = globalState (notifyOfUpdate e fr v w)
            \<and> messages (snd (createSession e projects w0))
                = messages (notifyOfUpdate e fr v w)
                  @ (if operatingMode e = MultiRoot \<and> semverGte e v ''0.8.0'' = Inr False
                     then [InformationMessage (multiRootNotice v)] else []))"
proof (intro conjI impI)
  show "messages (notifyOfUpdate e fr v w) =
     messages w @ (if updateDue e w \<and> versionOutdated e v
                   then [InformationMessage (outdatedMessage e fr v)] else [])"
    by (rule notifyOfUpdate_messages)
  show "globalState (notifyOfUpdate e fr v w) =
       (if updateDue e w
        then (globalState w)(''lastNotifiedOfUpdate'' \<mapsto> toISOString e (clock e (Suc (tick w))))
        else globalState w)"
    by (rule notifyOfUpdate_globalState)
  show "updateDue e w \<longleftrightarrow>
        (\<exists>t. dateGetTime e (lastNotifiedOfUpdate e w) = Some t
             \<and> clock e (tick w) - t > daysToMs e 3)"
    by (rule updateDue_elapsed)
next
  assume a: "updateDue e w
        \<and> toISOString e (clock e (Suc (tick w))) \<noteq> []
        \<and> dateGetTime e (toISOString e (clock e (Suc (tick w)))) = Some (clock e (Suc (tick w)))
        \<and> globalState w' ''lastNotifiedOfUpdate''
            = globalState (notifyOfUpdate e fr v w) ''lastNotifiedOfUpdate''
        \<and> clock e (tick w') - clock e (Suc (tick w)) \<le> daysToMs e 3"
  then have "globalState w' ''lastNotifiedOfUpdate''
      = Some (toISOString e (clock e (Suc (tick w))))"
    by (simp add: notifyOfUpdate_globalState)
  with a have "\<not> updateDue e w'"
    by (intro not_due_after_stamp[of "toISOString e (clock e (Suc (tick w)))" e
          "clock e (Suc (tick w))" w']) simp_all
  then show "messages (notifyOfUpdate e fr' v' w') = messages w'"
    by (simp add: notifyOfUpdate_messages)
next
  assume b: "findBinary e projects w0 = (Inr (Some fr), w) \<and> fileIsExecutable w (bin fr)
        \<and> getVersion e (bin fr) = Some v \<and> v \<noteq> []"
  then show "globalState (snd (createSession e projects w0))
              = globalState (notifyOfUpdate e fr v w)"
    by (intro createSession_notifies(1)) simp_all
  from b show "messages (snd (createSession e projects w0))
                = messages (notifyOfUpdate e fr v w)
                  @ (if operatingMode e = MultiRoot \<and> semverGte e v ''0.8.0'' = Inr False
                     then [InformationMessage (multiRootNotice v)] else [])"
    by (intro createSession_notifies(2)) simp_all
qed

text \<open>
  On the Linux host, whose clock stands at 2026-11-03 and whose store is empty: the check
  for the current version 2.0.0 shows nothing and still stores the time; a check for the
  outdated 1.9.0 right after it shows nothing; from the empty store the check for 1.9.0
  shows the notification; and creating a session for the project stores the time and
  shows that one notification and nothing else.
\<close>

theorem notifyOfUpdate_three_days_witness:
  "messages (notifyOfUpdate demoEnv pathResult ''2.0.0'' emptyWorld) = []
   \<and> globalState (notifyOfUpdate demoEnv pathResult ''2.0.0'' emptyWorld) ''lastNotifiedOfUpdate''
       = Some ''2026-11-03T00:00:00.000Z''
   \<and> messages (notifyOfUpdate demoEnv pathResult ''1.9.0''
         (notifyOfUpdate demoEnv pathResult ''2.0.0'' emptyWorld)) = []
   \<and> messages (notifyOfUpdate demoEnv pathResult ''1.9.0'' emptyWorld)
       = [InformationMessage (updateAndRenamingMessageForKind Path)]
   \<and> globalState (snd (createSession demoEnv [demoProject] binWorld)) ''lastNotifiedOfUpdate''
       = Some ''2026-11-03T00:00:00.000Z''
   \<and> messages (snd (createSession demoEnv [demoProject] binWorld))
       = [InformationMessage (updateAndRenamingMessageForKind Path)]"
proof -
  let ?w1 = "notifyOfUpdate demoEnv pathResult ''2.0.0'' emptyWorld"
  obtain wf where f: "findBinary demoEnv [demoProject] binWorld = (Inr (Some pathResult), wf)"
    "globalState wf = Map.empty" "tick wf = 0" "messages wf = []"
    "fileIsExecutable wf (bin pathResult)" "operatingMode demoEnv = SingleRoot"
    using demo_findBinary
    by (simp add: binWorld_def emptyWorld_def fileIsExecutable_def pathResult_def
        operatingMode_def demoEnv_def)
  have env: "\<And>n. clock demoEnv n = 1793664000000"
    "\<And>t. t \<noteq> 0 \<Longrightarrow> toISOString demoEnv t = ''2026-11-03T00:00:00.000Z''"
    "toISOString demoEnv 0 = ''1970-01-01T00:00:00.000Z''"
    "dateGetTime demoEnv ''2026-11-03T00:00:00.000Z'' = Some 1793664000000"
    "dateGetTime demoEnv ''1970-01-01T00:00:00.000Z'' = Some 0"
    "daysToMs demoEnv 3 = 259200000"
    "\<not> versionOutdated demoEnv ''2.0.0''" "versionOutdated demoEnv ''1.9.0''"
    "\<And>p. getVersion demoEnv p = Some ''1.9.0''"
    by (simp_all add: demoEnv_def)
  have ew: "messages emptyWorld = []" "globalState emptyWorld = Map.empty" "tick emptyWorld = 0"
    by (simp_all add: emptyWorld_def)
  have due: "updateDue demoEnv emptyWorld" "updateDue demoEnv wf"
    using f(2,3) by (simp_all add: updateDue_def lastNotifiedOfUpdate_def env ew)
  have msg: "outdatedMessage demoEnv pathResult ''1.9.0'' = updateAndRenamingMessageForKind Path"
    by (simp add: outdatedMessage_def hasNewName_def pathResult_def demoEnv_def)
  have t1: "tick ?w1 = 2"
    by (simp add: notifyOfUpdate_def due env Let_def ew)
  note a = notifyOfUpdate_three_days[of demoEnv pathResult "''2.0.0''" emptyWorld ?w1
      pathResult "''1.9.0''" "[demoProject]" binWorld]
  note b = notifyOfUpdate_three_days[of demoEnv pathResult "''1.9.0''" emptyWorld emptyWorld
      pathResult "''1.9.0''" "[demoProject]" binWorld]
  note c = notifyOfUpdate_three_days[of demoEnv pathResult "''1.9.0''" wf emptyWorld
      pathResult "''1.9.0''" "[demoProject]" binWorld]
  from a have a1: "messages ?w1 = []"
    "globalState ?w1 ''lastNotifiedOfUpdate'' = Some ''2026-11-03T00:00:00.000Z''"
    by (simp_all add: due env ew)
  from a a1 have a2: "messages (notifyOfUpdate demoEnv pathResult ''1.9.0'' ?w1) = []"
    by (simp add: due env t1)
  from b have b1: "messages (notifyOfUpdate demoEnv pathResult ''1.9.0'' emptyWorld)
       = [InformationMessage (updateAndRenamingMessageForKind Path)]"
    by (simp add: due env msg ew)
  from c f have c1: "globalState (snd (createSession demoEnv [demoProject] binWorld))
      ''lastNotifiedOfUpdate'' = Some ''2026-11-03T00:00:00.000Z''"
    by (simp add: due env)
  from c f have c2: "messages (snd (createSession demoEnv [demoProject] binWorld))
      = [InformationMessage (updateAndRenamingMessageForKind Path)]"
    by (simp add: due env msg)
  from a1 a2 b1 c1 c2 show ?thesis by simp
qed

end
